theory Spec2Isabelle
  imports Complex_Main
begin

section \<open>Values and errors of the Python program\<close>

text \<open>
  The exceptions the program can meet.  \<open>ValueError\<close> is what \<open>calculate_volatility\<close> raises
  itself and what the \<open>datetime\<close> constructor raises on fields that are no date;
  \<open>KeyError\<close> is raised by \<open>main\<close> when the required maturity is not a label of the
  interpolated table, and carries the labels of that table; \<open>TypeError\<close> is Python's
  \<open>None / 100\<close>; \<open>ZeroDivisionError\<close> is Python's float division by zero;
  \<open>DownloadError\<close> stands for whatever the market-data library raises.
  A maturity label \<open>"<N>-year"\<close> is represented by the integer \<open>N\<close>.
\<close>

datatype error =
    ValueError
  | KeyError "int list"
  | TypeError
  | ZeroDivisionError
  | DownloadError

text \<open>
  A numpy \<open>float64\<close>: a finite number, an infinity with its sign (\<open>True\<close> is \<open>+inf\<close>),
  or NaN.  Finite numbers are exact reals: the rounding error of the binary format and the
  sign of zero are not part of the model.
\<close>

datatype float64 = Num real | Infty bool | NaN

fun isnan :: "float64 \<Rightarrow> bool" where
  "isnan NaN = True"
| "isnan _ = False"

fun isfinite :: "float64 \<Rightarrow> bool" where
  "isfinite (Num x) = True"
| "isfinite _ = False"

fun the_num :: "float64 \<Rightarrow> real" where
  "the_num (Num x) = x"
| "the_num _ = 0"

fun np_neg :: "float64 \<Rightarrow> float64" where
  "np_neg (Num x) = Num (- x)"
| "np_neg (Infty s) = Infty (\<not> s)"
| "np_neg NaN = NaN"

fun np_add :: "float64 \<Rightarrow> float64 \<Rightarrow> float64" where
  "np_add (Num x) (Num y) = Num (x + y)"
| "np_add (Num x) (Infty s) = Infty s"
| "np_add (Infty s) (Num y) = Infty s"
| "np_add (Infty s) (Infty t) = (if s = t then Infty s else NaN)"
| "np_add NaN _ = NaN"
| "np_add _ NaN = NaN"

definition np_sub :: "float64 \<Rightarrow> float64 \<Rightarrow> float64" where
  "np_sub a b = np_add a (np_neg b)"

fun np_mul :: "float64 \<Rightarrow> float64 \<Rightarrow> float64" where
  "np_mul (Num x) (Num y) = Num (x * y)"
| "np_mul (Num x) (Infty s) = (if x = 0 then NaN else Infty (s = (0 < x)))"
| "np_mul (Infty s) (Num y) = (if y = 0 then NaN else Infty (s = (0 < y)))"
| "np_mul (Infty s) (Infty t) = Infty (s = t)"
| "np_mul NaN _ = NaN"
| "np_mul _ NaN = NaN"

fun np_div :: "float64 \<Rightarrow> float64 \<Rightarrow> float64" where
  "np_div (Num x) (Num y) =
     (if y = 0 then (if x = 0 then NaN else Infty (0 < x)) else Num (x / y))"
| "np_div (Num x) (Infty s) = Num 0"
| "np_div (Infty s) (Num y) = Infty (s = (0 \<le> y))"
| "np_div (Infty s) (Infty t) = NaN"
| "np_div NaN _ = NaN"
| "np_div _ NaN = NaN"

fun np_log :: "float64 \<Rightarrow> float64" where
  "np_log (Num x) = (if x < 0 then NaN else if x = 0 then Infty False else Num (ln x))"
| "np_log (Infty s) = (if s then Infty True else NaN)"
| "np_log NaN = NaN"

fun np_sqrt :: "float64 \<Rightarrow> float64" where
  "np_sqrt (Num x) = (if x < 0 then NaN else Num (sqrt x))"
| "np_sqrt (Infty s) = (if s then Infty True else NaN)"
| "np_sqrt NaN = NaN"

fun np_exp :: "float64 \<Rightarrow> float64" where
  "np_exp (Num x) = Num (exp x)"
| "np_exp (Infty s) = (if s then Infty True else Num 0)"
| "np_exp NaN = NaN"

text \<open>
  Python's \<open>round(x)\<close> and numpy's \<open>round(x, 2)\<close> both round half to even; the second
  one scales by 100, rounds to an integer and divides by 100 again.
\<close>

definition round_half_even :: "real \<Rightarrow> int" where
  "round_half_even x =
     (let f = \<lfloor>x\<rfloor>; r = x - of_int f
      in if r < 1 / 2 then f
         else if 1 / 2 < r then f + 1
         else if even f then f else f + 1)"

definition round2 :: "real \<Rightarrow> real" where
  "round2 x = of_int (round_half_even (x * 100)) / 100"

fun np_round2 :: "float64 \<Rightarrow> float64" where
  "np_round2 (Num x) = Num (round2 x)"
| "np_round2 (Infty s) = Infty s"
| "np_round2 NaN = NaN"

section \<open>Calendar dates of \<open>datetime\<close>\<close>

text \<open>
  \<open>datetime.strptime(s, '%Y-%m-%d')\<close> reads the three fields of the text and hands them to
  the \<open>datetime\<close> constructor, which raises \<open>ValueError\<close> unless they are a date of the
  proleptic Gregorian calendar with a year in 1..9999.  The model starts from the three
  fields.  The ordinal of a date is Python's \<open>toordinal\<close> (0001-01-01 is day 1), and the
  difference of two dates in days is the difference of their ordinals.
\<close>

record date =
  year :: int
  month :: int
  day :: int

type_synonym ymd = "int \<times> int \<times> int"

definition is_leap :: "int \<Rightarrow> bool" where
  "is_leap y = (y mod 4 = 0 \<and> (y mod 100 \<noteq> 0 \<or> y mod 400 = 0))"

definition DAYS_IN_MONTH :: "int list" where
  "DAYS_IN_MONTH = [-1, 31, 28, 31, 30, 31, 30, 31, 31, 30, 31, 30, 31]"

definition DAYS_BEFORE_MONTH :: "int list" where
  "DAYS_BEFORE_MONTH = [-1, 0, 31, 59, 90, 120, 151, 181, 212, 243, 273, 304, 334]"

definition days_before_year :: "int \<Rightarrow> int" where
  "days_before_year y = (let z = y - 1 in z * 365 + z div 4 - z div 100 + z div 400)"

definition days_in_month :: "int \<Rightarrow> int \<Rightarrow> int" where
  "days_in_month y m = (if m = 2 \<and> is_leap y then 29 else DAYS_IN_MONTH ! nat m)"

definition days_before_month :: "int \<Rightarrow> int \<Rightarrow> int" where
  "days_before_month y m =
     DAYS_BEFORE_MONTH ! nat m + (if 2 < m \<and> is_leap y then 1 else 0)"

definition valid_date :: "int \<Rightarrow> int \<Rightarrow> int \<Rightarrow> bool" where
  "valid_date y m d =
     (1 \<le> y \<and> y \<le> 9999 \<and> 1 \<le> m \<and> m \<le> 12 \<and> 1 \<le> d \<and> d \<le> days_in_month y m)"

definition mk_date :: "int \<Rightarrow> int \<Rightarrow> int \<Rightarrow> error + date" where
  "mk_date y m d =
     (if valid_date y m d then Inr \<lparr>year = y, month = m, day = d\<rparr> else Inl ValueError)"

definition strptime :: "ymd \<Rightarrow> error + date" where
  "strptime s = (case s of (y, m, d) \<Rightarrow> mk_date y m d)"

definition toordinal :: "date \<Rightarrow> int" where
  "toordinal dt = days_before_year (year dt) + days_before_month (year dt) (month dt) + day dt"

definition days_between :: "date \<Rightarrow> date \<Rightarrow> int" where
  "days_between a b = toordinal a - toordinal b"

text \<open>\<open>dt.replace(year=y)\<close> builds a new date from the changed fields, with the same check.\<close>

definition replace_year :: "date \<Rightarrow> int \<Rightarrow> error + date" where
  "replace_year dt y = mk_date y (month dt) (day dt)"

section \<open>\<open>calculate_years_to_maturity\<close>\<close>

definition calculate_years_to_maturity :: "ymd \<Rightarrow> ymd \<Rightarrow> ymd \<Rightarrow> error + int" where
  "calculate_years_to_maturity valuation_date expiration_date vesting_end_date =
     (case strptime valuation_date of Inl e \<Rightarrow> Inl e | Inr v \<Rightarrow>
       (case strptime expiration_date of Inl e \<Rightarrow> Inl e | Inr x \<Rightarrow>
         (case strptime vesting_end_date of Inl e \<Rightarrow> Inl e | Inr w \<Rightarrow>
           (let ytm_valuation_expiration = real_of_int (days_between x v) / 365;
                ytm_valuation_vesting = real_of_int (days_between w v) / 365
            in Inr (round_half_even
                 ((ytm_valuation_expiration + ytm_valuation_vesting) / 2))))))"

section \<open>\<open>black_scholes\<close>\<close>

text \<open>
  \<open>scipy.stats.norm.cdf\<close>, the distribution function of the standard normal law, as the
  power series of the error function:
  \<open>\<Phi>(x) = 1/2 + (1 / sqrt (2 \<pi>)) \<Sum> (-1)^n x^(2n+1) / (n! 2^n (2n+1))\<close>;
  at the infinities it is 0 and 1, and NaN stays NaN.
\<close>

definition norm_cdf :: "real \<Rightarrow> real" where
  "norm_cdf x =
     1 / 2 + (1 / sqrt (2 * pi)) *
       (\<Sum>n. (- 1) ^ n * x ^ (2 * n + 1) / (fact n * 2 ^ n * real (2 * n + 1)))"

fun np_cdf :: "float64 \<Rightarrow> float64" where
  "np_cdf (Num x) = Num (norm_cdf x)"
| "np_cdf (Infty s) = (if s then Num 1 else Num 0)"
| "np_cdf NaN = NaN"

text \<open>
  \<open>S\<close>, \<open>K\<close> and \<open>T\<close> are Python numbers (they come from the configuration file and from
  \<open>calculate_years_to_maturity\<close>), so \<open>S / K\<close> is Python's division, which raises on a
  zero divisor; \<open>r\<close> and \<open>sigma\<close> are \<open>float64\<close> values, and every other operation has a
  \<open>float64\<close> operand, so it follows numpy: a division by zero or the root of a negative
  number gives an infinity or NaN (and a warning), never an exception.  The function has
  no check of its arguments.
\<close>

definition black_scholes :: "real \<Rightarrow> real \<Rightarrow> real \<Rightarrow> float64 \<Rightarrow> float64 \<Rightarrow> error + float64" where
  "black_scholes S K T r sigma =
     (if K = 0 then Inl ZeroDivisionError
      else
        (let d1 = np_div
                    (np_add (np_log (Num (S / K)))
                       (np_mul (np_add r (np_mul (Num (1 / 2)) (np_mul sigma sigma))) (Num T)))
                    (np_mul sigma (np_sqrt (Num T)));
             d2 = np_sub d1 (np_mul sigma (np_sqrt (Num T)));
             option_price =
               np_sub (np_mul (Num S) (np_cdf d1))
                 (np_mul (np_mul (Num K) (np_exp (np_mul (np_neg r) (Num T)))) (np_cdf d2))
         in Inr option_price))"

section \<open>\<open>calculate_volatility\<close>\<close>

text \<open>
  The market-data library is outside the program: \<open>yf.download\<close> is a function from the
  ticker and the two ends of the window to the table it returns, or to the exception it
  raises.  Of the table only the index and the column \<open>Adj Close\<close> are used: a list of
  dated prices, in the order of the index, which is chronological.
\<close>

type_synonym price_series = "(date \<times> real) list"

type_synonym downloader = "string \<Rightarrow> date \<Rightarrow> date \<Rightarrow> error + price_series"

text \<open>
  The bin of a date under \<open>resample('W-FRI')\<close> (weeks that close on a Friday: Saturday to
  Friday; day 1 of the ordinal count is a Monday) and under \<open>resample('M')\<close> (calendar
  months).  Bins are numbered consecutively.
\<close>

definition weekday :: "date \<Rightarrow> int" where
  "weekday dt = (toordinal dt + 6) mod 7"

definition week_bin :: "date \<Rightarrow> int" where
  "week_bin dt = (toordinal dt + 1) div 7"

definition month_bin :: "date \<Rightarrow> int" where
  "month_bin dt = year dt * 12 + (month dt - 1)"

text \<open>
  \<open>resample(rule).last()\<close>: one slot for every bin from the bin of the first row to the
  bin of the last row; a slot holds the last price of its bin, and NaN when no row falls
  into the bin.
\<close>

definition resample_last :: "(date \<Rightarrow> int) \<Rightarrow> price_series \<Rightarrow> float64 list" where
  "resample_last bin data =
     map (\<lambda>b. case filter (\<lambda>row. bin (fst row) = b) data of
                 [] \<Rightarrow> NaN
               | r # rs \<Rightarrow> Num (snd (last (r # rs))))
       [bin (fst (hd data)) .. bin (fst (last data))]"

text \<open>\<open>prices.shift(1)\<close> moves every value one row down and puts NaN in the first row.\<close>

definition shift1 :: "float64 list \<Rightarrow> float64 list" where
  "shift1 prices = (if prices = [] then [] else NaN # butlast prices)"

definition dropna :: "float64 list \<Rightarrow> float64 list" where
  "dropna xs = filter (\<lambda>x. \<not> isnan x) xs"

text \<open>
  \<open>Series.std()\<close>: NaN values are skipped, the divisor is \<open>n - 1\<close>, and the result is NaN
  when fewer than two values are left.  An infinite value makes a deviation
  \<open>inf - inf\<close>, so the result is NaN then as well.
\<close>

definition std :: "float64 list \<Rightarrow> float64" where
  "std xs =
     (let ys = dropna xs; n = length ys
      in if n < 2 then NaN
         else if \<not> list_all isfinite ys then NaN
         else
           (let vs = map the_num ys;
                avg = sum_list vs / real n
            in Num (sqrt (sum_list (map (\<lambda>v. (avg - v)\<^sup>2) vs) / real (n - 1)))))"

text \<open>Lines 29 to 31: from the resampled prices to the rounded percentage.\<close>

definition volatility_of :: "float64 list \<Rightarrow> real \<Rightarrow> float64" where
  "volatility_of prices annual_factor =
     (let log_returns = dropna (map np_log (map2 np_div prices (shift1 prices)));
          volatility = np_mul (std log_returns) (Num annual_factor)
      in np_round2 (np_mul volatility (Num 100)))"

text \<open>Lines 17 to 27: the prices at the requested cadence and the annual factor.\<close>

definition resample_for :: "string \<Rightarrow> price_series \<Rightarrow> error + float64 list \<times> real" where
  "resample_for frequency adj_close =
     (if frequency = ''daily'' then Inr (map (\<lambda>row. Num (snd row)) adj_close, sqrt 252)
      else if frequency = ''weekly'' then Inr (resample_last week_bin adj_close, sqrt 52)
      else if frequency = ''monthly'' then Inr (resample_last month_bin adj_close, sqrt 12)
      else Inl ValueError)"

definition calculate_volatility ::
    "downloader \<Rightarrow> string \<Rightarrow> date \<Rightarrow> date \<Rightarrow> string \<Rightarrow> error + float64" where
  "calculate_volatility download ticker start_date end_date frequency =
     (case download ticker start_date end_date of
        Inl e \<Rightarrow> Inl e
      | Inr data \<Rightarrow>
          if data = [] then Inl ValueError
          else
            (case resample_for frequency data of
               Inl e \<Rightarrow> Inl e
             | Inr (prices, annual_factor) \<Rightarrow> Inr (volatility_of prices annual_factor)))"

text \<open>
  The estimate in the words of the specification: the last observation of every week
  (closing on Friday) or calendar month that has one, the log returns of consecutive
  observations, their standard deviation with the divisor \<open>n - 1\<close>, the annual factor,
  the percentage rounded to two decimals.
\<close>

definition spec_last_per :: "(date \<Rightarrow> int) \<Rightarrow> price_series \<Rightarrow> real list" where
  "spec_last_per period data =
     map (\<lambda>b. snd (last (filter (\<lambda>row. period (fst row) = b) data)))
       (remdups (map (\<lambda>row. period (fst row)) data))"

definition spec_resample :: "string \<Rightarrow> price_series \<Rightarrow> real list" where
  "spec_resample frequency data =
     (if frequency = ''weekly'' then spec_last_per week_bin data
      else if frequency = ''monthly'' then spec_last_per month_bin data
      else map snd data)"

definition spec_log_returns :: "real list \<Rightarrow> real list" where
  "spec_log_returns ps = map (\<lambda>(p_prev, p). ln (p / p_prev)) (zip ps (tl ps))"

definition spec_sample_std :: "real list \<Rightarrow> real" where
  "spec_sample_std rs =
     (let mean = sum_list rs / real (length rs)
      in sqrt (sum_list (map (\<lambda>r. (r - mean)\<^sup>2) rs) / (real (length rs) - 1)))"

definition spec_periods_per_year :: "string \<Rightarrow> real" where
  "spec_periods_per_year frequency =
     (if frequency = ''weekly'' then 52 else if frequency = ''monthly'' then 12 else 252)"

definition spec_volatility :: "string \<Rightarrow> price_series \<Rightarrow> real" where
  "spec_volatility frequency data =
     round2 (spec_sample_std (spec_log_returns (spec_resample frequency data))
               * sqrt (spec_periods_per_year frequency) * 100)"

text \<open>
  Two conditions on a downloaded table.  It is chronological when its rows are dates in
  ascending order.  It has no empty period for a frequency when every week (every month)
  between its first and its last row holds a row; the daily frequency has no periods.
\<close>

definition chronological :: "price_series \<Rightarrow> bool" where
  "chronological data =
     (list_all (\<lambda>row. valid_date (year (fst row)) (month (fst row)) (day (fst row))) data
      \<and> sorted (map (\<lambda>row. toordinal (fst row)) data))"

definition no_empty_bin :: "(date \<Rightarrow> int) \<Rightarrow> price_series \<Rightarrow> bool" where
  "no_empty_bin bin data =
     list_all (\<lambda>b. list_ex (\<lambda>row. bin (fst row) = b) data)
       [bin (fst (hd data)) .. bin (fst (last data))]"

definition no_empty_period :: "string \<Rightarrow> price_series \<Rightarrow> bool" where
  "no_empty_period frequency data =
     (if frequency = ''weekly'' then no_empty_bin week_bin data
      else if frequency = ''monthly'' then no_empty_bin month_bin data
      else True)"

section \<open>The volatility loop of \<open>main\<close> (lines 97 to 122)\<close>

text \<open>
  The loop calls \<open>calculate_volatility\<close> for every ticker with the same window.  A value
  is appended to \<open>volatilities\<close>; an exception is caught and printed, and nothing else is
  kept of it.  The state of the loop is the list \<open>volatilities\<close>, the lines printed by
  line 105 and the downloads requested so far.
\<close>

record loop_state =
  volatilities :: "(string \<times> float64) list"
  printed_errors :: "(string \<times> error) list"
  downloads :: "(string \<times> date \<times> date) list"

fun volatility_loop ::
    "downloader \<Rightarrow> date \<Rightarrow> date \<Rightarrow> string \<Rightarrow> string list \<Rightarrow> loop_state \<Rightarrow> loop_state" where
  "volatility_loop download start_date end_date frequency [] st = st"
| "volatility_loop download start_date end_date frequency (ticker # tickers) st =
     (let st1 = st\<lparr>downloads := downloads st @ [(ticker, start_date, end_date)]\<rparr>
      in case calculate_volatility download ticker start_date end_date frequency of
           Inr volatility \<Rightarrow>
             volatility_loop download start_date end_date frequency tickers
               (st1\<lparr>volatilities := volatilities st1 @ [(ticker, volatility)]\<rparr>)
         | Inl e \<Rightarrow>
             volatility_loop download start_date end_date frequency tickers
               (st1\<lparr>printed_errors := printed_errors st1 @ [(ticker, e)]\<rparr>))"

text \<open>
  \<open>mean\<close> of pandas skips NaN and is NaN when nothing is left.  The table
  \<open>volatility_df\<close> has one numeric column when it has a row and none when it is empty,
  so \<open>volatility_df.mean(axis=0, numeric_only=True)\<close> has one entry or none.
\<close>

definition nanmean :: "float64 list \<Rightarrow> float64" where
  "nanmean xs =
     (let ys = dropna xs
      in if ys = [] then NaN else np_div (foldl np_add (Num 0) ys) (Num (real (length ys))))"

definition column_means :: "(string \<times> float64) list \<Rightarrow> float64 list" where
  "column_means vols = (if vols = [] then [] else [nanmean (map snd vols)])"

record volatility_report =
  volatility_df :: "(string \<times> float64 option) list"
  average_volatility :: float64
  console :: "(string \<times> error) list"
  requested :: "(string \<times> date \<times> date) list"

definition aggregate_volatility ::
    "downloader \<Rightarrow> date \<Rightarrow> date \<Rightarrow> string \<Rightarrow> string list \<Rightarrow> volatility_report" where
  "aggregate_volatility download start_date end_date frequency tickers =
     (let st = volatility_loop download start_date end_date frequency tickers
                 \<lparr>volatilities = [], printed_errors = [], downloads = []\<rparr>;
          means = column_means (volatilities st);
          average = np_div (nanmean means) (Num 100);
          average_row =
            (''Average'', case means of [] \<Rightarrow> None | m # ms \<Rightarrow> Some (np_round2 m))
      in \<lparr>volatility_df = map (\<lambda>(t, v). (t, Some v)) (volatilities st) @ [average_row],
          average_volatility = average,
          console = printed_errors st,
          requested = downloads st\<rparr>)"

text \<open>
  In the words of the specification: the tickers whose volatility was computed, with the
  volatility, and the tickers whose computation failed, with the error.
\<close>

definition succeeded ::
    "downloader \<Rightarrow> date \<Rightarrow> date \<Rightarrow> string \<Rightarrow> string list \<Rightarrow> (string \<times> float64) list" where
  "succeeded download start_date end_date frequency tickers =
     concat (map (\<lambda>t. case calculate_volatility download t start_date end_date frequency of
                         Inr v \<Rightarrow> [(t, v)] | Inl e \<Rightarrow> []) tickers)"

definition failed ::
    "downloader \<Rightarrow> date \<Rightarrow> date \<Rightarrow> string \<Rightarrow> string list \<Rightarrow> (string \<times> error) list" where
  "failed download start_date end_date frequency tickers =
     concat (map (\<lambda>t. case calculate_volatility download t start_date end_date frequency of
                         Inr v \<Rightarrow> [] | Inl e \<Rightarrow> [(t, e)]) tickers)"

section \<open>The yield table of \<open>main\<close> (lines 125 to 178)\<close>

text \<open>
  The label \<open>"N-year"\<close> of a reference instrument is the integer \<open>N\<close>.
  \<open>fetch_treasury_yield\<close> only talks to the market-data library; it is a function from the
  symbol and the valuation date to the yield or to the exception.
\<close>

type_synonym yield_fetcher = "string \<Rightarrow> date \<Rightarrow> error + float64"

definition treasury_tickers :: "(int \<times> string) list" where
  "treasury_tickers = [(1, ''^IRX''), (5, ''^FVX''), (10, ''^TNX''), (30, ''^TYX'')]"

definition fetch_yields :: "yield_fetcher \<Rightarrow> date \<Rightarrow> (int \<times> float64 option) list" where
  "fetch_yields fetch_treasury_yield valuation_date =
     map (\<lambda>(ticker_name, ticker_symbol).
            (ticker_name,
             case fetch_treasury_yield ticker_symbol valuation_date of
               Inr latest_yield \<Rightarrow> Some latest_yield
             | Inl e \<Rightarrow> None))
       treasury_tickers"

text \<open>
  \<open>pd.DataFrame(yields)\<close>: a column that holds a number becomes a \<open>float64\<close> column, and
  every \<open>None\<close> in it becomes NaN; a column of \<open>None\<close> only stays a column of objects and
  keeps \<open>None\<close>.
\<close>

definition DataFrame :: "(int \<times> float64 option) list \<Rightarrow> (int \<times> float64 option) list" where
  "DataFrame yields =
     (if list_all (\<lambda>row. snd row = None) yields then yields
      else map (\<lambda>row. (fst row, Some (case snd row of None \<Rightarrow> NaN | Some y \<Rightarrow> y))) yields)"

definition known_maturities :: "int list" where
  "known_maturities = map fst treasury_tickers"

definition max_maturity :: int where
  "max_maturity = Max (set known_maturities)"

definition intermediate_maturities :: "int list" where
  "intermediate_maturities = filter (\<lambda>i. i \<notin> set known_maturities) [1 .. max_maturity]"

definition all_maturities :: "int list" where
  "all_maturities = sort (remdups (known_maturities @ intermediate_maturities))"

text \<open>\<open>list.index\<close> raises \<open>ValueError\<close> when the value is not in the list.\<close>

fun index_of :: "'a list \<Rightarrow> 'a \<Rightarrow> error + nat" where
  "index_of [] x = Inl ValueError"
| "index_of (y # ys) x =
     (if y = x then Inr 0
      else case index_of ys x of Inl e \<Rightarrow> Inl e | Inr i \<Rightarrow> Inr (Suc i))"

text \<open>
  \<open>np.interp\<close> at one point, over the sample points in ascending order: the first value
  left of the first point, the last value from the last point on, the value of a point
  at the point, and between two points the line through them, computed from the left
  point, then (when that is NaN) from the right point, then (when that is NaN too and the
  two values are equal) the common value.
\<close>

definition line_through :: "real \<Rightarrow> real \<Rightarrow> float64 \<Rightarrow> real \<Rightarrow> float64 \<Rightarrow> float64" where
  "line_through x x0 y0 x1 y1 =
     (let slope = np_div (np_sub y1 y0) (Num (x1 - x0));
          res = np_add (np_mul slope (Num (x - x0))) y0
      in if isnan res then
           (let res2 = np_add (np_mul slope (Num (x - x1))) y1
            in if isnan res2 \<and> y0 = y1 \<and> \<not> isnan y0 then y0 else res2)
         else res)"

fun interp_from :: "real \<Rightarrow> (real \<times> float64) list \<Rightarrow> float64" where
  "interp_from x [] = NaN"
| "interp_from x [(x0, y0)] = y0"
| "interp_from x ((x0, y0) # (x1, y1) # ps) =
     (if x < x1 then (if x = x0 then y0 else line_through x x0 y0 x1 y1)
      else interp_from x ((x1, y1) # ps))"

definition interp_point :: "real \<Rightarrow> (real \<times> float64) list \<Rightarrow> float64" where
  "interp_point x ps =
     (case ps of [] \<Rightarrow> NaN | (x0, y0) # qs \<Rightarrow> if x < x0 then y0 else interp_from x ps)"

definition np_interp :: "real list \<Rightarrow> real list \<Rightarrow> float64 list \<Rightarrow> error + float64 list" where
  "np_interp x xp fp =
     (if xp = [] \<or> length xp \<noteq> length fp then Inl ValueError
      else Inr (map (\<lambda>v. interp_point v (zip xp fp)) x))"

fun collect :: "(error + 'a) list \<Rightarrow> error + 'a list" where
  "collect [] = Inr []"
| "collect (Inl e # rs) = Inl e"
| "collect (Inr v # rs) = (case collect rs of Inl e \<Rightarrow> Inl e | Inr vs \<Rightarrow> Inr (v # vs))"

text \<open>
  Lines 166 to 169, the body of the loop over \<open>all_maturities\<close>: the cell of one
  maturity.  A known maturity takes its value as it is; any other takes the interpolated
  value at its position in \<open>intermediate_maturities\<close>, rounded to two decimals.
\<close>

definition curve_row ::
    "int list \<Rightarrow> float64 list \<Rightarrow> float64 list \<Rightarrow> int \<Rightarrow> error + int \<times> float64 option" where
  "curve_row known_maturity_years known_yield_values interpolated_yields maturity =
     (if maturity \<in> set known_maturity_years then
        (case index_of known_maturity_years maturity of
           Inl e \<Rightarrow> Inl e
         | Inr i \<Rightarrow> Inr (maturity, Some (known_yield_values ! i)))
      else
        (case index_of intermediate_maturities maturity of
           Inl e \<Rightarrow> Inl e
         | Inr i \<Rightarrow> Inr (maturity, Some (np_round2 (interpolated_yields ! i)))))"

text \<open>
  Lines 147 to 178.  A cell of the result is \<open>None\<close> (Python's \<open>None\<close>) or a \<open>float64\<close>;
  the rows are labelled with \<open>all_maturities\<close>.
\<close>

definition interpolate_yields ::
    "(int \<times> float64 option) list \<Rightarrow> error + (int \<times> float64 option) list" where
  "interpolate_yields yield_df =
     (let known_yields =
            concat (map (\<lambda>maturity.
                      case map_of yield_df maturity of
                        Some (Some yield_value) \<Rightarrow> [(maturity, yield_value)]
                      | _ \<Rightarrow> [])
                   known_maturities)
      in if known_yields \<noteq> [] then
           (let sorted_yields = sort_key fst known_yields;
                known_maturity_years = map fst sorted_yields;
                known_yield_values = map snd sorted_yields
            in case np_interp (map real_of_int intermediate_maturities)
                      (map real_of_int known_maturity_years) known_yield_values of
                 Inl e \<Rightarrow> Inl e
               | Inr interpolated_yields \<Rightarrow>
                   collect (map (curve_row known_maturity_years known_yield_values
                                   interpolated_yields)
                              all_maturities))
         else Inr (map (\<lambda>maturity. (maturity, None)) all_maturities))"

text \<open>
  Lines 184 to 191: the guard on the label, then the cell divided by 100.  The message of
  the \<open>KeyError\<close> holds the index of the table.
\<close>

definition lookup_rate :: "(int \<times> float64 option) list \<Rightarrow> int \<Rightarrow> error + float64" where
  "lookup_rate interpolated_df required_maturity =
     (if required_maturity \<notin> set (map fst interpolated_df)
        then Inl (KeyError (map fst interpolated_df))
      else case map_of interpolated_df required_maturity of
             Some (Some y) \<Rightarrow> Inr (np_div y (Num 100))
           | _ \<Rightarrow> Inl TypeError)"

text \<open>
  The interpolation in the words of the specification: at a maturity that is not known,
  the line through the nearest known point below and the nearest known point above.
\<close>

definition spec_bracket_interp :: "(int \<times> real) list \<Rightarrow> int \<Rightarrow> real" where
  "spec_bracket_interp known m =
     (let below = last (filter (\<lambda>p. fst p < m) known);
          above = hd (filter (\<lambda>p. m < fst p) known)
      in snd below
         + (snd above - snd below) * real_of_int (m - fst below)
             / real_of_int (fst above - fst below))"

section \<open>\<open>main\<close> up to the valuation (lines 70 to 196)\<close>

text \<open>
  The configuration as \<open>main\<close> reads it: the dates are the fields of the three texts, and
  \<open>frequency\<close> is the value of \<open>config.get('frequency', 'daily')\<close>.
\<close>

record config =
  stock_price :: real
  strike_price :: real
  valuation_date :: ymd
  expiration_date :: ymd
  vesting_end_date :: ymd
  public_comps :: "string list"
  frequency :: string

record valuation =
  years_to_maturity :: int
  risk_free_rate :: float64
  volatility :: float64
  option_valuation :: float64
  volatility_table :: "(string \<times> float64 option) list"
  interpolated_df :: "(int \<times> float64 option) list"

text \<open>
  A run of \<open>main\<close>: the downloads of price series it requested, the errors it printed in
  the volatility loop, and the valuation or the exception that ended it.  The report
  written after line 196 is not part of the model.
\<close>

record run =
  price_requests :: "(string \<times> date \<times> date) list"
  printed :: "(string \<times> error) list"
  outcome :: "error + valuation"

definition main :: "config \<Rightarrow> downloader \<Rightarrow> yield_fetcher \<Rightarrow> run" where
  "main cfg download fetch_treasury_yield =
     (case calculate_years_to_maturity (valuation_date cfg) (expiration_date cfg)
             (vesting_end_date cfg) of
        Inl e \<Rightarrow> \<lparr>price_requests = [], printed = [], outcome = Inl e\<rparr>
      | Inr ytm \<Rightarrow>
         (case strptime (valuation_date cfg) of
            Inl e \<Rightarrow> \<lparr>price_requests = [], printed = [], outcome = Inl e\<rparr>
          | Inr valuation_date_dt \<Rightarrow>
             (case replace_year valuation_date_dt (year valuation_date_dt - ytm) of
                Inl e \<Rightarrow> \<lparr>price_requests = [], printed = [], outcome = Inl e\<rparr>
              | Inr start_date \<Rightarrow>
                 (let end_date = valuation_date_dt;
                      report = aggregate_volatility download start_date end_date
                                 (frequency cfg) (public_comps cfg);
                      yield_df = DataFrame (fetch_yields fetch_treasury_yield valuation_date_dt)
                  in \<lparr>price_requests = requested report,
                      printed = console report,
                      outcome =
                        (case interpolate_yields yield_df of
                           Inl e \<Rightarrow> Inl e
                         | Inr table \<Rightarrow>
                            (case lookup_rate table ytm of
                               Inl e \<Rightarrow> Inl e
                             | Inr rate \<Rightarrow>
                                (case black_scholes (stock_price cfg) (strike_price cfg)
                                        (real_of_int ytm) rate (average_volatility report) of
                                   Inl e \<Rightarrow> Inl e
                                 | Inr price \<Rightarrow>
                                     Inr \<lparr>years_to_maturity = ytm,
                                          risk_free_rate = rate,
                                          volatility = average_volatility report,
                                          option_valuation = price,
                                          volatility_table = volatility_df report,
                                          interpolated_df = table\<rparr>)))\<rparr>))))"

section \<open>Properties of \<open>calculate_years_to_maturity\<close>\<close>

lemma round_half_even_nearest: "\<bar>real_of_int (round_half_even x) - x\<bar> \<le> 1 / 2"
  unfolding round_half_even_def Let_def by (auto; linarith)

lemma strptime_valid:
  "valid_date y m d \<Longrightarrow> strptime (y, m, d) = Inr \<lparr>year = y, month = m, day = d\<rparr>"
  by (simp add: strptime_def mk_date_def)

lemma strptime_invalid: "\<not> valid_date y m d \<Longrightarrow> strptime (y, m, d) = Inl ValueError"
  by (simp add: strptime_def mk_date_def)



section \<open>Properties of \<open>black_scholes\<close>\<close>

lemma np_mul_NaN_right [simp]: "np_mul a NaN = NaN"
  by (cases a) simp_all

lemma np_div_NaN_right [simp]: "np_div a NaN = NaN"
  by (cases a) simp_all

lemma np_add_NaN_right [simp]: "np_add a NaN = NaN"
  by (cases a) simp_all

lemma norm_cdf_0: "norm_cdf 0 = 1 / 2"
  by (simp add: norm_cdf_def)




section \<open>Properties of the calendar\<close>

lemma div_step:
  fixes y k :: int
  assumes "0 < k"
  shows "y div k - (y - 1) div k = (if y mod k = 0 then 1 else 0)"
proof -
  define q r where "q = y div k" and "r = y mod k"
  have y: "y = k * q + r" and r: "0 \<le> r" "r < k"
    using assms by (simp_all add: q_def r_def)
  show ?thesis
  proof (cases "r = 0")
    case True
    have "y - 1 = k * (q - 1) + (k - 1)"
      using y True by (simp add: algebra_simps)
    then have "(y - 1) div k = q - 1"
      using assms int_div_pos_eq [of "y - 1" k "q - 1" "k - 1"] by simp
    then show ?thesis using True by (simp add: q_def r_def)
  next
    case False
    have "y - 1 = k * q + (r - 1)"
      using y by simp
    then have "(y - 1) div k = q"
      using r False int_div_pos_eq [of "y - 1" k q "r - 1"] by simp
    then show ?thesis using False by (simp add: q_def r_def)
  qed
qed


lemma days_before_year_step:
  "days_before_year (y + 1) = days_before_year y + 365 + (if is_leap y then 1 else 0)"
proof -
  have d4: "y div 4 - (y - 1) div 4 = (if y mod 4 = 0 then 1 else 0)"
    by (rule div_step) simp
  have d100: "y div 100 - (y - 1) div 100 = (if y mod 100 = 0 then 1 else 0)"
    by (rule div_step) simp
  have d400: "y div 400 - (y - 1) div 400 = (if y mod 400 = 0 then 1 else 0)"
    by (rule div_step) simp
  have "y mod 4 = (y mod 100) mod 4"
    by (simp add: mod_mod_cancel)
  then have m100: "y mod 100 = 0 \<Longrightarrow> y mod 4 = 0"
    by simp
  have "y mod 100 = (y mod 400) mod 100"
    by (simp add: mod_mod_cancel)
  then have m400: "y mod 400 = 0 \<Longrightarrow> y mod 100 = 0"
    by simp
  define a a' b b' c c' where "a = y div 4" and "a' = (y - 1) div 4"
    and "b = y div 100" and "b' = (y - 1) div 100"
    and "c = y div 400" and "c' = (y - 1) div 400"
  define P4 P100 P400 where "P4 \<longleftrightarrow> y mod 4 = 0" and "P100 \<longleftrightarrow> y mod 100 = 0"
    and "P400 \<longleftrightarrow> y mod 400 = 0"
  have da: "a - a' = (if P4 then 1 else 0)"
    using d4 by (simp only: a_def a'_def P4_def)
  have db: "b - b' = (if P100 then 1 else 0)"
    using d100 by (simp only: b_def b'_def P100_def)
  have dc: "c - c' = (if P400 then 1 else 0)"
    using d400 by (simp only: c_def c'_def P400_def)
  have imp: "P100 \<longrightarrow> P4" "P400 \<longrightarrow> P100"
    unfolding P4_def P100_def P400_def using m100 m400 by blast+
  have l: "days_before_year (y + 1) = y * 365 + a - b + c"
    by (simp only: days_before_year_def Let_def a_def b_def c_def add_diff_cancel_right')
  have r: "days_before_year y = (y - 1) * 365 + a' - b' + c'"
    by (simp only: days_before_year_def Let_def a'_def b'_def c'_def)
  have leap: "is_leap y \<longleftrightarrow> P4 \<and> (\<not> P100 \<or> P400)"
    by (simp only: is_leap_def P4_def P100_def P400_def)
  show ?thesis
    unfolding l r leap using da db dc imp
    by (cases P4; cases P100; cases P400; simp)
qed


lemma week_bin_mono: "toordinal a \<le> toordinal b \<Longrightarrow> week_bin a \<le> week_bin b"
  unfolding week_bin_def by (simp add: zdiv_mono1)

lemma days_before_year_mono: "y \<le> z \<Longrightarrow> days_before_year y \<le> days_before_year z"
proof (induction z rule: int_ge_induct)
  case base
  show ?case by simp
next
  case (step i)
  have "days_before_year i \<le> days_before_year (i + 1)"
    unfolding days_before_year_step by simp
  with step.IH show ?case by linarith
qed

lemma month_cases:
  assumes "1 \<le> m" and "m \<le> 12"
  shows "m = 1 \<or> m = 2 \<or> m = 3 \<or> m = 4 \<or> m = 5 \<or> m = 6 \<or> m = 7 \<or> m = 8 \<or> m = 9
         \<or> m = 10 \<or> m = 11 \<or> m = (12::int)"
  using assms by presburger

lemma day_of_year_bounds:
  assumes "valid_date y m d"
  shows "1 \<le> days_before_month y m + d \<and>
         days_before_month y m + d \<le> 365 + (if is_leap y then 1 else 0)"
proof -
  have m: "m = 1 \<or> m = 2 \<or> m = 3 \<or> m = 4 \<or> m = 5 \<or> m = 6 \<or> m = 7 \<or> m = 8 \<or> m = 9
         \<or> m = 10 \<or> m = 11 \<or> m = 12"
    using assms by (intro month_cases) (simp_all add: valid_date_def)
  have d: "1 \<le> d" "d \<le> days_in_month y m"
    using assms by (simp_all add: valid_date_def)
  show ?thesis
    using m d
    by (elim disjE)
       (simp_all add: days_before_month_def days_in_month_def
          DAYS_BEFORE_MONTH_def DAYS_IN_MONTH_def split: if_splits)
qed


lemma days_before_month_next:
  assumes "valid_date y m d" and "m \<le> 11"
  shows "days_before_month y m + d \<le> days_before_month y (m + 1)"
proof -
  have m: "m = 1 \<or> m = 2 \<or> m = 3 \<or> m = 4 \<or> m = 5 \<or> m = 6 \<or> m = 7 \<or> m = 8 \<or> m = 9
         \<or> m = 10 \<or> m = 11 \<or> m = 12"
    using assms by (intro month_cases) (simp_all add: valid_date_def)
  have d: "d \<le> days_in_month y m"
    using assms by (simp add: valid_date_def)
  show ?thesis
    using m d assms(2)
    by (elim disjE)
       (simp_all add: days_before_month_def days_in_month_def
          DAYS_BEFORE_MONTH_def DAYS_IN_MONTH_def split: if_splits)
qed

lemma days_before_month_mono:
  assumes "1 \<le> m" and "m \<le> m'" and "m' \<le> 12"
  shows "days_before_month y m \<le> days_before_month y m'"
proof -
  have "m' \<le> 12 \<longrightarrow> days_before_month y m \<le> days_before_month y m'"
    using assms(2)
  proof (induction m' rule: int_ge_induct)
    case base
    show ?case by simp
  next
    case (step i)
    have i: "i = 1 \<or> i = 2 \<or> i = 3 \<or> i = 4 \<or> i = 5 \<or> i = 6 \<or> i = 7 \<or> i = 8 \<or> i = 9
           \<or> i = 10 \<or> i = 11 \<or> 11 < i"
      using assms(1) step.hyps by presburger
    have "days_before_month y i \<le> days_before_month y (i + 1) \<or> 11 < i"
      using i
      by (elim disjE)
         (simp_all add: days_before_month_def DAYS_BEFORE_MONTH_def)
    with step.IH show ?case by linarith
  qed
  with assms(3) show ?thesis by simp
qed

lemma toordinal_month_mono:
  assumes a: "valid_date (year a) (month a) (day a)"
    and b: "valid_date (year b) (month b) (day b)"
    and le: "toordinal a \<le> toordinal b"
  shows "month_bin a \<le> month_bin b"
proof (rule ccontr)
  assume "\<not> month_bin a \<le> month_bin b"
  then have gt: "year b * 12 + month b < year a * 12 + month a"
    by (simp add: month_bin_def)
  have ma: "1 \<le> month a" "month a \<le> 12" and mb: "1 \<le> month b" "month b \<le> 12"
    using a b by (simp_all add: valid_date_def)
  have ba: "1 \<le> days_before_month (year a) (month a) + day a"
    using day_of_year_bounds [OF a] by simp
  have bb: "days_before_month (year b) (month b) + day b
              \<le> 365 + (if is_leap (year b) then 1 else 0)"
    using day_of_year_bounds [OF b] by simp
  consider (year) "year b < year a" | (month) "year b = year a" "month b < month a"
    using gt ma mb by linarith
  then have "toordinal b < toordinal a"
  proof cases
    case year
    then have "days_before_year (year b + 1) \<le> days_before_year (year a)"
      by (intro days_before_year_mono) simp
    then show ?thesis
      using ba bb unfolding toordinal_def days_before_year_step by linarith
  next
    case month
    have "days_before_month (year b) (month b) + day b
            \<le> days_before_month (year b) (month b + 1)"
      using b month(2) ma by (intro days_before_month_next) simp_all
    also have "\<dots> \<le> days_before_month (year b) (month a)"
      using mb month(2) ma by (intro days_before_month_mono) simp_all
    finally show ?thesis
      using a month(1) unfolding toordinal_def by (simp add: valid_date_def)
  qed
  with le show False by simp
qed

text \<open>
  The weeks of \<open>week_bin\<close> close on Fridays: the last day of the week of a date is the
  Friday on or after the date.
\<close>

lemma friday_aux:
  fixes q r :: int
  assumes "r = 0 \<or> r = 1 \<or> r = 2 \<or> r = 3 \<or> r = 4 \<or> r = 5 \<or> r = 6"
  shows "(4 - (7 * q + r + 5) mod 7) mod 7 = 6 - r"
  using assms by (elim disjE) simp_all

lemma friday_of_ordinal: "7 * ((o' + 1) div 7) + 5 = o' + (4 - (o' + 6) mod 7) mod (7::int)"
proof -
  define q r where "q = (o' + 1) div 7" and "r = (o' + 1) mod 7"
  have o: "o' = 7 * q + r - 1"
    by (simp add: q_def r_def)
  have "0 \<le> r" "r < 7"
    by (simp_all add: r_def)
  then have r: "r = 0 \<or> r = 1 \<or> r = 2 \<or> r = 3 \<or> r = 4 \<or> r = 5 \<or> r = 6"
    by linarith
  have "o' + 6 = 7 * q + r + 5"
    using o by simp
  then have "(4 - (o' + 6) mod 7) mod 7 = (4 - (7 * q + r + 5) mod 7) mod 7"
    by (simp only:)
  also have "\<dots> = 6 - r"
    by (rule friday_aux [OF r])
  finally have "(4 - (o' + 6) mod 7) mod 7 = 6 - r" .
  then show ?thesis
    using o by (simp add: q_def [symmetric])
qed

lemma week_bin_friday: "7 * week_bin dt + 5 = toordinal dt + (4 - weekday dt) mod 7"
  using friday_of_ordinal [of "toordinal dt"] by (simp only: week_bin_def weekday_def)

text \<open>The ordinal of January 1, 2020, as \<open>date(2020, 1, 1).toordinal()\<close> gives it.\<close>

lemma toordinal_example: "toordinal \<lparr>year = 2020, month = 1, day = 1\<rparr> = 737425"
  by code_simp

text \<open>January 3, 2020 was a Friday: Monday is 0 and Friday is 4.\<close>

lemma weekday_example: "weekday \<lparr>year = 2020, month = 1, day = 3\<rparr> = 4"
  by code_simp

section \<open>Properties of \<open>calculate_volatility\<close>\<close>

lemma dropna_Num [simp]: "dropna (map Num vs) = map Num vs"
  by (induction vs) (simp_all add: dropna_def)

lemma the_num_Num_comp [simp]: "the_num \<circ> Num = id"
  by (rule ext) simp

lemma std_Num:
  assumes "2 \<le> length vs"
  shows "std (map Num vs) = Num (spec_sample_std vs)"
proof -
  have fin: "list_all isfinite (map Num vs)"
    by (induction vs) simp_all
  have n: "real (length vs - 1) = real (length vs) - 1"
    using assms by (simp add: of_nat_diff)
  have sq: "(\<lambda>v. (sum_list vs / real (length vs) - v)\<^sup>2) = (\<lambda>r. (r - sum_list vs / real (length vs))\<^sup>2)"
    by (rule ext) (simp add: power2_commute)
  show ?thesis
    using assms fin by (simp add: std_def spec_sample_std_def Let_def n sq)
qed

lemma std_short: "length xs < 2 \<Longrightarrow> std xs = NaN"
proof -
  assume "length xs < 2"
  moreover have "length (dropna xs) \<le> length xs"
    by (simp add: dropna_def)
  ultimately show ?thesis by (simp add: std_def Let_def)
qed

lemma np_log_ratio:
  assumes "0 < a" and "0 < b"
  shows "np_log (np_div (Num b) (Num a)) = Num (ln (b / a))"
proof -
  have "0 < b / a" using assms by simp
  then show ?thesis using assms by (simp add: not_less less_imp_le)
qed

lemma log_ratio_Num:
  assumes "\<forall>p \<in> set (q # qs). 0 < p"
  shows "map np_log (map2 np_div (map Num qs) (butlast (Num q # map Num qs)))
           = map Num (spec_log_returns (q # qs))"
  using assms
proof (induction qs arbitrary: q)
  case Nil
  show ?case by (simp add: spec_log_returns_def)
next
  case (Cons a qs)
  have ih: "map np_log (map2 np_div (map Num qs) (butlast (Num a # map Num qs)))
           = map Num (spec_log_returns (a # qs))"
    using Cons.prems by (intro Cons.IH) simp
  have hd: "np_log (np_div (Num a) (Num q)) = Num (ln (a / q))"
    using Cons.prems by (intro np_log_ratio) simp_all
  have "map np_log (map2 np_div (map Num (a # qs)) (butlast (Num q # map Num (a # qs))))
          = np_log (np_div (Num a) (Num q))
              # map np_log (map2 np_div (map Num qs) (butlast (Num a # map Num qs)))"
    by simp
  also have "\<dots> = Num (ln (a / q)) # map Num (spec_log_returns (a # qs))"
    by (simp only: ih hd)
  also have "\<dots> = map Num (spec_log_returns (q # a # qs))"
    by (simp add: spec_log_returns_def)
  finally show ?case .
qed

lemma log_returns_Num:
  assumes "\<forall>p \<in> set qs. 0 < p"
  shows "dropna (map np_log (map2 np_div (map Num qs) (shift1 (map Num qs))))
           = map Num (spec_log_returns qs)"
proof (cases qs)
  case Nil
  then show ?thesis by (simp add: shift1_def spec_log_returns_def dropna_def)
next
  case (Cons q qs')
  have tl: "map np_log (map2 np_div (map Num qs') (butlast (Num q # map Num qs')))
           = map Num (spec_log_returns (q # qs'))"
    using assms Cons by (intro log_ratio_Num) simp
  have "map np_log (map2 np_div (map Num qs) (shift1 (map Num qs)))
          = NaN # map np_log (map2 np_div (map Num qs') (butlast (Num q # map Num qs')))"
    using Cons by (simp add: shift1_def)
  then show ?thesis
    unfolding tl using Cons by (simp add: dropna_def)
qed

lemma length_spec_log_returns: "length (spec_log_returns ps) = length ps - 1"
  by (simp add: spec_log_returns_def)

lemma volatility_of_Num:
  assumes "\<forall>p \<in> set qs. 0 < p" and "3 \<le> length qs"
  shows "volatility_of (map Num qs) af
           = Num (round2 (spec_sample_std (spec_log_returns qs) * af * 100))"
proof -
  have len: "2 \<le> length (spec_log_returns qs)"
    using assms(2) by (simp add: length_spec_log_returns)
  have lr: "dropna (map np_log (map2 np_div (map Num qs) (shift1 (map Num qs))))
           = map Num (spec_log_returns qs)"
    by (rule log_returns_Num) (rule assms(1))
  show ?thesis
    unfolding volatility_of_def Let_def lr std_Num [OF len] by simp
qed

lemma volatility_of_short:
  assumes "length prices \<le> 2"
  shows "volatility_of prices af = NaN"
proof (cases prices)
  case Nil
  then show ?thesis by (simp add: volatility_of_def shift1_def dropna_def std_def Let_def)
next
  case (Cons p ps)
  have "length (dropna (map np_log (map2 np_div ps (butlast (p # ps))))) \<le> length ps"
    by (simp add: dropna_def le_trans [OF length_filter_le])
  then have "length (dropna (map np_log (map2 np_div prices (shift1 prices)))) < 2"
    using assms Cons by (simp add: shift1_def dropna_def)
  then show ?thesis
    by (simp add: volatility_of_def Let_def std_short)
qed

lemma sorted_hd_least:
  fixes xs :: "int list"
  assumes "sorted xs" and "x \<in> set xs"
  shows "hd xs \<le> x"
  using assms by (cases xs) auto

lemma sorted_last_greatest:
  fixes xs :: "int list"
  assumes "sorted xs" and "x \<in> set xs"
  shows "x \<le> last xs"
  using assms by (induction xs) (auto split: if_splits)

lemma remdups_sorted_range:
  fixes ks :: "int list"
  assumes ne: "ks \<noteq> []" and srt: "sorted ks"
    and cov: "\<forall>b \<in> {hd ks .. last ks}. b \<in> set ks"
  shows "remdups ks = [hd ks .. last ks]"
proof (rule sorted_distinct_set_unique)
  show "sorted (remdups ks)" using srt by simp
  show "distinct (remdups ks)" by simp
  show "sorted [hd ks .. last ks]" by simp
  show "distinct [hd ks .. last ks]" by simp
  have "set ks \<subseteq> {hd ks .. last ks}"
    using srt sorted_hd_least [OF srt] sorted_last_greatest [OF srt] by auto
  moreover have "{hd ks .. last ks} \<subseteq> set ks"
    using cov by blast
  ultimately show "set (remdups ks) = set [hd ks .. last ks]"
    by simp
qed

lemma resample_last_no_gap:
  assumes ne: "data \<noteq> []"
    and srt: "sorted (map (\<lambda>row. bin (fst row)) data)"
    and cov: "no_empty_bin bin data"
  shows "resample_last bin data = map Num (spec_last_per bin data)"
proof -
  let ?keys = "map (\<lambda>row. bin (fst row)) data"
  have ends: "hd ?keys = bin (fst (hd data))" "last ?keys = bin (fst (last data))"
    using ne by (simp_all add: hd_map last_map)
  have full: "\<forall>b \<in> {bin (fst (hd data)) .. bin (fst (last data))}.
                filter (\<lambda>row. bin (fst row) = b) data \<noteq> []"
    using cov unfolding no_empty_bin_def list_all_iff list_ex_iff
    by (auto simp: filter_empty_conv)
  then have "\<forall>b \<in> {hd ?keys .. last ?keys}. b \<in> set ?keys"
    unfolding ends by (auto simp: filter_empty_conv)
  then have range: "remdups ?keys = [bin (fst (hd data)) .. bin (fst (last data))]"
    using remdups_sorted_range [of ?keys] ne srt ends by simp
  have "map (\<lambda>b. case filter (\<lambda>row. bin (fst row) = b) data of
                     [] \<Rightarrow> NaN | r # rs \<Rightarrow> Num (snd (last (r # rs))))
            [bin (fst (hd data)) .. bin (fst (last data))]
        = map (\<lambda>b. Num (snd (last (filter (\<lambda>row. bin (fst row) = b) data))))
            [bin (fst (hd data)) .. bin (fst (last data))]"
  proof (rule map_cong [OF refl])
    fix b assume "b \<in> set [bin (fst (hd data)) .. bin (fst (last data))]"
    then have "filter (\<lambda>row. bin (fst row) = b) data \<noteq> []"
      using full by simp
    then show "(case filter (\<lambda>row. bin (fst row) = b) data of
                  [] \<Rightarrow> NaN | r # rs \<Rightarrow> Num (snd (last (r # rs))))
               = Num (snd (last (filter (\<lambda>row. bin (fst row) = b) data)))"
      by (cases "filter (\<lambda>row. bin (fst row) = b) data") simp_all
  qed
  then show ?thesis
    unfolding resample_last_def spec_last_per_def range by (simp add: comp_def)
qed

lemma chronological_week_bins:
  assumes "chronological data"
  shows "sorted (map (\<lambda>row. week_bin (fst row)) data)"
proof -
  have "sorted_wrt (\<lambda>r s. toordinal (fst r) \<le> toordinal (fst s)) data"
    using assms by (simp add: chronological_def sorted_map)
  then have "sorted_wrt (\<lambda>r s. week_bin (fst r) \<le> week_bin (fst s)) data"
    by (rule sorted_wrt_mono_rel [rotated]) (simp add: week_bin_mono)
  then show ?thesis by (simp add: sorted_map)
qed

lemma chronological_month_bins:
  assumes "chronological data"
  shows "sorted (map (\<lambda>row. month_bin (fst row)) data)"
proof -
  have v: "\<And>r. r \<in> set data \<Longrightarrow> valid_date (year (fst r)) (month (fst r)) (day (fst r))"
    using assms by (simp add: chronological_def list_all_iff)
  have "sorted_wrt (\<lambda>r s. toordinal (fst r) \<le> toordinal (fst s)) data"
    using assms by (simp add: chronological_def sorted_map)
  then have "sorted_wrt (\<lambda>r s. month_bin (fst r) \<le> month_bin (fst s)) data"
    by (rule sorted_wrt_mono_rel [rotated]) (simp add: toordinal_month_mono v)
  then show ?thesis by (simp add: sorted_map)
qed

lemma spec_last_per_subset:
  "set (spec_last_per bin data) \<subseteq> snd ` set data"
proof
  fix p assume "p \<in> set (spec_last_per bin data)"
  then obtain b where b: "b \<in> set (map (\<lambda>row. bin (fst row)) data)"
    and p: "p = snd (last (filter (\<lambda>row. bin (fst row) = b) data))"
    by (auto simp: spec_last_per_def)
  from b have "filter (\<lambda>row. bin (fst row) = b) data \<noteq> []"
    by (auto simp: filter_empty_conv)
  then have "last (filter (\<lambda>row. bin (fst row) = b) data)
               \<in> set (filter (\<lambda>row. bin (fst row) = b) data)"
    by (rule last_in_set)
  then show "p \<in> snd ` set data"
    unfolding p by auto
qed

lemma spec_resample_subset:
  fixes frequency :: string
  shows "set (spec_resample frequency data) \<subseteq> snd ` set data"
  using spec_last_per_subset by (auto simp: spec_resample_def)

lemma resample_for_spec:
  fixes frequency :: string
  assumes freq: "frequency \<in> {''daily'', ''weekly'', ''monthly''}"
    and ne: "data \<noteq> []"
    and chrono: "chronological data"
    and nogap: "no_empty_period frequency data"
  shows "resample_for frequency data =
           Inr (map Num (spec_resample frequency data), sqrt (spec_periods_per_year frequency))"
proof -
  consider (d) "frequency = ''daily''" | (w) "frequency = ''weekly''"
    | (m) "frequency = ''monthly''"
    using freq by auto
  then show ?thesis
  proof cases
    case d
    then show ?thesis
      by (simp add: resample_for_def spec_resample_def spec_periods_per_year_def)
  next
    case w
    have "resample_last week_bin data = map Num (spec_last_per week_bin data)"
      using ne chrono nogap w
      by (intro resample_last_no_gap chronological_week_bins)
         (simp_all add: no_empty_period_def)
    then show ?thesis using w
      by (simp add: resample_for_def spec_resample_def spec_periods_per_year_def)
  next
    case m
    have "resample_last month_bin data = map Num (spec_last_per month_bin data)"
      using ne chrono nogap m
      by (intro resample_last_no_gap chronological_month_bins)
         (simp_all add: no_empty_period_def)
    then show ?thesis using m
      by (simp add: resample_for_def spec_resample_def spec_periods_per_year_def)
  qed
qed

text \<open>
  Claim C1, as the code has it.  For a chronological table of positive prices, a frequency
  among daily, weekly and monthly, no week (month) without a row between the first and
  the last row, and at least three observations after resampling, the volatility is the
  standard deviation (divisor \<open>n - 1\<close>) of the log returns of consecutive resampled
  observations, times \<open>sqrt 252\<close>, \<open>sqrt 52\<close> or \<open>sqrt 12\<close>, times 100, rounded to two
  decimals.
\<close>

theorem calculate_volatility_matches_spec:
  fixes frequency :: string
  assumes dl: "download ticker start_date end_date = Inr data"
    and freq: "frequency \<in> {''daily'', ''weekly'', ''monthly''}"
    and chrono: "chronological data"
    and pos: "\<forall>row \<in> set data. 0 < snd row"
    and nogap: "no_empty_period frequency data"
    and three: "3 \<le> length (spec_resample frequency data)"
  shows "calculate_volatility download ticker start_date end_date frequency =
           Inr (Num (spec_volatility frequency data))"
proof -
  have ne: "data \<noteq> []"
    using three by (auto simp: spec_resample_def spec_last_per_def split: if_splits)
  have p: "\<forall>p \<in> set (spec_resample frequency data). 0 < p"
    using pos spec_resample_subset [of frequency data] by auto
  have r: "resample_for frequency data =
           Inr (map Num (spec_resample frequency data), sqrt (spec_periods_per_year frequency))"
    using freq ne chrono nogap by (rule resample_for_spec)
  show ?thesis
    using dl ne
    by (simp add: calculate_volatility_def r volatility_of_Num [OF p three] spec_volatility_def)
qed

theorem calculate_volatility_matches_spec_witness:
  "chronological
     [(\<lparr>year = 2020, month = 1, day = 3\<rparr>, 100), (\<lparr>year = 2020, month = 1, day = 10\<rparr>, 110),
      (\<lparr>year = 2020, month = 1, day = 17\<rparr>, 110)]
   \<and> no_empty_period ''weekly''
     [(\<lparr>year = 2020, month = 1, day = 3\<rparr>, 100), (\<lparr>year = 2020, month = 1, day = 10\<rparr>, 110),
      (\<lparr>year = 2020, month = 1, day = 17\<rparr>, 110)]
   \<and> spec_resample ''weekly''
     [(\<lparr>year = 2020, month = 1, day = 3\<rparr>, 100), (\<lparr>year = 2020, month = 1, day = 10\<rparr>, 110),
      (\<lparr>year = 2020, month = 1, day = 17\<rparr>, 110)] = [100, 110, 110]
   \<and> calculate_volatility
       (\<lambda>t s e. Inr [(\<lparr>year = 2020, month = 1, day = 3\<rparr>, 100),
                       (\<lparr>year = 2020, month = 1, day = 10\<rparr>, 110),
                       (\<lparr>year = 2020, month = 1, day = 17\<rparr>, 110)])
       ''A'' \<lparr>year = 2019, month = 1, day = 1\<rparr> \<lparr>year = 2020, month = 2, day = 1\<rparr> ''weekly''
     = Inr (Num (spec_volatility ''weekly''
         [(\<lparr>year = 2020, month = 1, day = 3\<rparr>, 100), (\<lparr>year = 2020, month = 1, day = 10\<rparr>, 110),
          (\<lparr>year = 2020, month = 1, day = 17\<rparr>, 110)]))"
proof -
  let ?data = "[(\<lparr>year = 2020, month = 1, day = 3\<rparr>, 100::real),
                (\<lparr>year = 2020, month = 1, day = 10\<rparr>, 110),
                (\<lparr>year = 2020, month = 1, day = 17\<rparr>, 110)]"
  have c: "chronological ?data"
    by code_simp
  have g: "no_empty_period ''weekly'' ?data"
    by code_simp
  have r: "spec_resample ''weekly'' ?data = [100, 110, 110]"
    by code_simp
  have f: "''weekly'' \<in> {''daily'', ''weekly'', ''monthly''}"
    by simp
  have p: "\<forall>row \<in> set ?data. 0 < snd row"
    by simp
  have l: "3 \<le> length (spec_resample ''weekly'' ?data)"
    unfolding r by simp
  have d: "(\<lambda>t s e. Inr ?data :: error + price_series) ''A''
             \<lparr>year = 2019, month = 1, day = 1\<rparr> \<lparr>year = 2020, month = 2, day = 1\<rparr> = Inr ?data"
    by simp
  from calculate_volatility_matches_spec
         [of "\<lambda>t s e. Inr ?data" "''A''" "\<lparr>year = 2019, month = 1, day = 1\<rparr>"
             "\<lparr>year = 2020, month = 2, day = 1\<rparr>" ?data "''weekly''", OF d f c p g l] c g r
  show ?thesis by blast
qed

text \<open>
  The claim as stated fails at two observations: they give one log return, which has no
  standard deviation with the divisor \<open>n - 1\<close>, and the function returns NaN.
\<close>

theorem calculate_volatility_two_observations:
  "length (spec_resample ''daily''
     [(\<lparr>year = 2020, month = 1, day = 2\<rparr>, 100), (\<lparr>year = 2020, month = 1, day = 3\<rparr>, 110)]) = 2
   \<and> calculate_volatility
       (\<lambda>t s e. Inr [(\<lparr>year = 2020, month = 1, day = 2\<rparr>, 100),
                       (\<lparr>year = 2020, month = 1, day = 3\<rparr>, 110)])
       ''A'' \<lparr>year = 2019, month = 1, day = 1\<rparr> \<lparr>year = 2020, month = 2, day = 1\<rparr> ''daily''
     = Inr NaN
   \<and> calculate_volatility
       (\<lambda>t s e. Inr [(\<lparr>year = 2020, month = 1, day = 2\<rparr>, 100),
                       (\<lparr>year = 2020, month = 1, day = 3\<rparr>, 110)])
       ''A'' \<lparr>year = 2019, month = 1, day = 1\<rparr> \<lparr>year = 2020, month = 2, day = 1\<rparr> ''daily''
     \<noteq> Inr (Num (spec_volatility ''daily''
         [(\<lparr>year = 2020, month = 1, day = 2\<rparr>, 100),
          (\<lparr>year = 2020, month = 1, day = 3\<rparr>, 110)]))"
  by (simp add: calculate_volatility_def resample_for_def volatility_of_short spec_resample_def)

lemma ln_2_ge_half: "1 / 2 \<le> ln (2::real)"
proof -
  have "(1 / 2 \<le> ln (2::real)) = (exp (1 / 2) \<le> (2::real))"
    by (rule ln_ge_iff) simp
  then show ?thesis using exp_half_le2 by blast
qed

lemma round2_0 [simp]: "round2 0 = 0"
  by (simp add: round2_def round_half_even_def)

lemma round2_nonzero:
  assumes "1 \<le> x"
  shows "round2 x \<noteq> 0"
proof -
  have "\<bar>real_of_int (round_half_even (x * 100)) - x * 100\<bar> \<le> 1 / 2"
    by (rule round_half_even_nearest)
  then have "0 < real_of_int (round_half_even (x * 100))"
    using assms by linarith
  then show ?thesis by (simp add: round2_def)
qed

lemma gap_code:
  "volatility_of [Num 100, Num 200, NaN, Num 200, Num 400] af = Num 0"
  by (simp add: volatility_of_def shift1_def dropna_def std_def Let_def)

lemma gap_spec_std: "spec_sample_std [ln 2, 0, ln 2] = ln 2 / sqrt 3"
proof -
  have pos: "0 \<le> ln (2::real)" by simp
  have "(ln 2 - (ln 2 + ln 2) / 3)\<^sup>2 + ((ln 2 + ln 2) / 3)\<^sup>2 + (ln 2 - (ln 2 + ln 2) / 3)\<^sup>2
          = 2 * ((ln (2::real))\<^sup>2 / 3)"
    by (simp add: power2_eq_square algebra_simps)
  then have "spec_sample_std [ln 2, 0, ln 2] = sqrt ((ln 2)\<^sup>2 / 3)"
    by (simp add: spec_sample_std_def Let_def)
  also have "\<dots> = ln 2 / sqrt 3"
    using pos by (simp add: real_sqrt_divide)
  finally show ?thesis .
qed


text \<open>
  A week without a row: pandas gives it a NaN slot, and the two returns next to it are
  dropped, where the specification takes the return from the last observation before
  the gap to the first one after it.  The four Fridays below, one Friday missing between
  the second and the third, give two returns \<open>ln 2\<close> in the code, so a volatility of 0, and
  the three returns \<open>ln 2\<close>, 0, \<open>ln 2\<close> in the words of the specification.
\<close>

lemma calculate_volatility_empty_week:
  "\<not> no_empty_period ''weekly''
       [(\<lparr>year = 2020, month = 1, day = 3\<rparr>, 100), (\<lparr>year = 2020, month = 1, day = 10\<rparr>, 200),
        (\<lparr>year = 2020, month = 1, day = 24\<rparr>, 200), (\<lparr>year = 2020, month = 1, day = 31\<rparr>, 400)]
   \<and> calculate_volatility
       (\<lambda>t s e. Inr [(\<lparr>year = 2020, month = 1, day = 3\<rparr>, 100),
                       (\<lparr>year = 2020, month = 1, day = 10\<rparr>, 200),
                       (\<lparr>year = 2020, month = 1, day = 24\<rparr>, 200),
                       (\<lparr>year = 2020, month = 1, day = 31\<rparr>, 400)])
       ''A'' \<lparr>year = 2019, month = 1, day = 1\<rparr> \<lparr>year = 2020, month = 2, day = 1\<rparr> ''weekly''
     = Inr (Num 0)
   \<and> spec_volatility ''weekly''
       [(\<lparr>year = 2020, month = 1, day = 3\<rparr>, 100), (\<lparr>year = 2020, month = 1, day = 10\<rparr>, 200),
        (\<lparr>year = 2020, month = 1, day = 24\<rparr>, 200), (\<lparr>year = 2020, month = 1, day = 31\<rparr>, 400)]
     \<noteq> 0"
proof -
  let ?data = "[(\<lparr>year = 2020, month = 1, day = 3\<rparr>, 100::real),
                (\<lparr>year = 2020, month = 1, day = 10\<rparr>, 200),
                (\<lparr>year = 2020, month = 1, day = 24\<rparr>, 200),
                (\<lparr>year = 2020, month = 1, day = 31\<rparr>, 400)]"
  have gap: "\<not> no_empty_period ''weekly'' ?data"
    by code_simp
  have slots: "resample_last week_bin ?data = [Num 100, Num 200, NaN, Num 200, Num 400]"
    by code_simp
  have code: "calculate_volatility (\<lambda>t s e. Inr ?data) ''A''
                \<lparr>year = 2019, month = 1, day = 1\<rparr> \<lparr>year = 2020, month = 2, day = 1\<rparr> ''weekly''
              = Inr (Num 0)"
    by (simp add: calculate_volatility_def resample_for_def slots gap_code)
  have obs: "spec_resample ''weekly'' ?data = [100, 200, 200, 400]"
    by code_simp
  have rets: "spec_log_returns [100, 200, 200, 400] = [ln 2, 0, ln 2]"
    by (simp add: spec_log_returns_def)
  have "sqrt 3 \<le> (2::real)"
    by (rule real_le_lsqrt) simp_all
  then have "(1 / 2) / 2 \<le> ln 2 / sqrt (3::real)"
    using ln_2_ge_half by (intro frac_le) simp_all
  then have q: "1 / 4 \<le> ln 2 / sqrt (3::real)"
    by simp
  define z w where "z = ln 2 / sqrt (3::real)" and "w = sqrt (52::real)"
  have z: "1 / 4 \<le> z"
    using q by (simp only: z_def)
  have w: "1 \<le> w"
    by (simp add: w_def)
  have "z * 1 \<le> z * w"
    using z w by (intro mult_left_mono) linarith+
  with z have "1 \<le> z * w * 100"
    by linarith
  then have "1 \<le> ln 2 / sqrt 3 * sqrt 52 * (100::real)"
    by (simp only: z_def w_def)
  then have "round2 (ln 2 / sqrt 3 * sqrt 52 * 100) \<noteq> 0"
    by (rule round2_nonzero)
  then have spec: "spec_volatility ''weekly'' ?data \<noteq> 0"
    by (simp add: spec_volatility_def obs rets gap_spec_std spec_periods_per_year_def)
  from gap code spec show ?thesis by blast
qed

lemma resample_for_ok:
  fixes frequency :: string
  assumes "frequency \<in> {''daily'', ''weekly'', ''monthly''}"
  shows "\<exists>prices annual_factor. resample_for frequency data = Inr (prices, annual_factor)"
  using assms by (auto simp: resample_for_def)

lemma resample_for_bad:
  fixes frequency :: string
  assumes "frequency \<notin> {''daily'', ''weekly'', ''monthly''}"
  shows "resample_for frequency data = Inl ValueError"
  using assms by (simp add: resample_for_def)

text \<open>
  Claim C6, as the code has it.  When the download returns a table,
  \<open>calculate_volatility\<close> fails exactly when the table is empty or the frequency is not
  one of daily, weekly and monthly, and then with \<open>ValueError\<close>; a table that is not empty
  and resamples to fewer than three slots does not fail: the result is NaN.
\<close>

theorem calculate_volatility_failures:
  fixes frequency :: string
  assumes "download ticker start_date end_date = Inr data"
  shows "((\<exists>e. calculate_volatility download ticker start_date end_date frequency = Inl e)
            \<longleftrightarrow> data = [] \<or> frequency \<notin> {''daily'', ''weekly'', ''monthly''})
       \<and> (\<forall>e. calculate_volatility download ticker start_date end_date frequency = Inl e
              \<longrightarrow> e = ValueError)
       \<and> (\<forall>prices annual_factor.
             data \<noteq> [] \<and> resample_for frequency data = Inr (prices, annual_factor)
               \<and> length prices \<le> 2
             \<longrightarrow> calculate_volatility download ticker start_date end_date frequency = Inr NaN)"
proof (cases "frequency \<in> {''daily'', ''weekly'', ''monthly''}")
  case True
  then obtain ps af where r: "resample_for frequency data = Inr (ps, af)"
    using resample_for_ok by blast
  show ?thesis
    using assms True r
    by (auto simp: calculate_volatility_def volatility_of_short)
next
  case False
  then have r: "resample_for frequency data = Inl ValueError"
    by (rule resample_for_bad)
  show ?thesis
    using assms False r
    by (auto simp: calculate_volatility_def)
qed

theorem calculate_volatility_failures_witness:
  "calculate_volatility (\<lambda>t s e. Inr [(\<lparr>year = 2020, month = 1, day = 3\<rparr>, 100)])
       ''A'' \<lparr>year = 2019, month = 1, day = 1\<rparr> \<lparr>year = 2020, month = 2, day = 1\<rparr> ''weekly''
     = Inr NaN
   \<and> calculate_volatility (\<lambda>t s e. Inr [(\<lparr>year = 2020, month = 1, day = 3\<rparr>, 100)])
       ''A'' \<lparr>year = 2019, month = 1, day = 1\<rparr> \<lparr>year = 2020, month = 2, day = 1\<rparr> ''yearly''
     = Inl ValueError"
proof -
  let ?data = "[(\<lparr>year = 2020, month = 1, day = 3\<rparr>, 100::real)]"
  let ?dl = "\<lambda>(t::string) (s::date) (e::date). Inr ?data :: error + price_series"
  let ?s = "\<lparr>year = 2019, month = 1, day = 1\<rparr>" and ?e = "\<lparr>year = 2020, month = 2, day = 1\<rparr>"
  have d: "?dl ''A'' ?s ?e = Inr ?data"
    by simp
  have r: "resample_for ''weekly'' ?data = Inr ([Num 100], sqrt 52)"
    by (simp add: resample_for_def resample_last_def)
  have w: "calculate_volatility ?dl ''A'' ?s ?e ''weekly'' = Inr NaN"
    using calculate_volatility_failures [of ?dl "''A''" ?s ?e ?data "''weekly''", OF d] r
    by simp
  obtain e where "calculate_volatility ?dl ''A'' ?s ?e ''yearly'' = Inl e"
    using calculate_volatility_failures [of ?dl "''A''" ?s ?e ?data "''yearly''", OF d]
    by auto
  moreover from this have "e = ValueError"
    using calculate_volatility_failures [of ?dl "''A''" ?s ?e ?data "''yearly''", OF d]
    by blast
  ultimately show ?thesis using w by simp
qed

text \<open>
  The claim as stated fails for a table of one row: fewer than two observations after
  resampling, and no failure.
\<close>

theorem calculate_volatility_one_observation:
  "calculate_volatility (\<lambda>t s e. Inr [(\<lparr>year = 2020, month = 1, day = 3\<rparr>, 100)])
       ''A'' \<lparr>year = 2019, month = 1, day = 1\<rparr> \<lparr>year = 2020, month = 2, day = 1\<rparr> ''daily''
     = Inr NaN"
  by (simp add: calculate_volatility_def resample_for_def volatility_of_short)

section \<open>Properties of the volatility loop\<close>

lemma volatility_loop_state:
  fixes frequency :: string
  shows "volatility_loop download start_date end_date frequency tickers st =
     \<lparr>volatilities = volatilities st @ succeeded download start_date end_date frequency tickers,
      printed_errors = printed_errors st @ failed download start_date end_date frequency tickers,
      downloads = downloads st @ map (\<lambda>t. (t, start_date, end_date)) tickers\<rparr>"
proof (induction tickers arbitrary: st)
  case Nil
  show ?case by (simp add: succeeded_def failed_def)
next
  case (Cons t ts)
  show ?case
    by (cases "calculate_volatility download t start_date end_date frequency")
       (simp_all add: Cons.IH succeeded_def failed_def Let_def)
qed

lemma nanmean_single: "nanmean [m] = m"
  by (cases m) (simp_all add: nanmean_def dropna_def)

lemma nanmean_column_means: "nanmean (column_means vols) = nanmean (map snd vols)"
  by (simp add: column_means_def nanmean_single)

lemma foldl_np_add_Num: "foldl np_add (Num a) (map Num xs) = Num (a + sum_list xs)"
  by (induction xs arbitrary: a) (simp_all add: add.assoc)

lemma nanmean_Num:
  assumes "xs \<noteq> []"
  shows "nanmean (map Num xs) = Num (sum_list xs / real (length xs))"
  using assms by (simp add: nanmean_def Let_def foldl_np_add_Num)


lemma aggregate_volatility_report:
  fixes frequency :: string
  shows "aggregate_volatility download start_date end_date frequency tickers =
     \<lparr>volatility_df =
        map (\<lambda>(t, v). (t, Some v)) (succeeded download start_date end_date frequency tickers)
        @ [(''Average'',
            case column_means (succeeded download start_date end_date frequency tickers) of
              [] \<Rightarrow> None | m # ms \<Rightarrow> Some (np_round2 m))],
      average_volatility =
        np_div (nanmean (map snd (succeeded download start_date end_date frequency tickers)))
          (Num 100),
      console = failed download start_date end_date frequency tickers,
      requested = map (\<lambda>t. (t, start_date, end_date)) tickers\<rparr>"
  by (simp add: aggregate_volatility_def volatility_loop_state Let_def nanmean_column_means)

lemma volatility_of_constant:
  "0 < p \<Longrightarrow> volatility_of [Num p, Num p, Num p] af = Num 0"
  by (simp add: volatility_of_def shift1_def dropna_def std_def Let_def)

lemma calculate_volatility_constant:
  assumes "download t s e = Inr [(d1, p), (d2, p), (d3, p)]" and "0 < p"
  shows "calculate_volatility download t s e ''daily'' = Inr (Num 0)"
  using assms by (simp add: calculate_volatility_def resample_for_def volatility_of_constant)

lemma calculate_volatility_empty:
  fixes frequency :: string
  assumes "download t s e = Inr []"
  shows "calculate_volatility download t s e frequency = Inl ValueError"
  using assms by (simp add: calculate_volatility_def)

lemma calculate_volatility_raised:
  fixes frequency :: string
  assumes "download t s e = Inl err"
  shows "calculate_volatility download t s e frequency = Inl err"
  using assms by (simp add: calculate_volatility_def)

text \<open>
  Claim C9, as the code has it.  The loop asks for every ticker of the list, whatever
  fails; a failure is printed and kept nowhere else: the table holds the tickers that
  succeeded and the row \<open>Average\<close>; the average is the mean of the volatilities that were
  computed and are not NaN, divided by 100.  For the tickers A and B, where A gives the
  number \<open>a\<close> and B fails, the average is \<open>a / 100\<close>, the table holds A and the average
  row, and B is in the printed lines only.
\<close>

theorem aggregate_volatility_partial_failures:
  fixes frequency :: string
  shows "requested (aggregate_volatility download start_date end_date frequency tickers)
           = map (\<lambda>t. (t, start_date, end_date)) tickers
       \<and> console (aggregate_volatility download start_date end_date frequency tickers)
           = failed download start_date end_date frequency tickers
       \<and> map fst (volatility_df
             (aggregate_volatility download start_date end_date frequency tickers))
           = map fst (succeeded download start_date end_date frequency tickers) @ [''Average'']
       \<and> average_volatility
             (aggregate_volatility download start_date end_date frequency tickers)
           = np_div
               (nanmean (map snd (succeeded download start_date end_date frequency tickers)))
               (Num 100)
       \<and> (\<forall>xs. xs \<noteq> []
              \<and> map snd (succeeded download start_date end_date frequency tickers) = map Num xs
            \<longrightarrow> average_volatility
                  (aggregate_volatility download start_date end_date frequency tickers)
                = Num (sum_list xs / real (length xs) / 100))
       \<and> (\<forall>A B a err.
              calculate_volatility download A start_date end_date frequency = Inr (Num a)
              \<and> calculate_volatility download B start_date end_date frequency = Inl err
            \<longrightarrow> aggregate_volatility download start_date end_date frequency [A, B]
                = \<lparr>volatility_df = [(A, Some (Num a)), (''Average'', Some (Num (round2 a)))],
                   average_volatility = Num (a / 100),
                   console = [(B, err)],
                   requested = [(A, start_date, end_date), (B, start_date, end_date)]\<rparr>)"
proof (intro conjI allI impI)
  show "map fst (volatility_df
             (aggregate_volatility download start_date end_date frequency tickers))
           = map fst (succeeded download start_date end_date frequency tickers) @ [''Average'']"
    by (simp add: aggregate_volatility_report comp_def case_prod_unfold)
next
  fix xs :: "real list"
  assume "xs \<noteq> []
     \<and> map snd (succeeded download start_date end_date frequency tickers) = map Num xs"
  then show "average_volatility
                  (aggregate_volatility download start_date end_date frequency tickers)
                = Num (sum_list xs / real (length xs) / 100)"
    by (simp add: aggregate_volatility_report nanmean_Num)
next
  fix A B a err
  assume "calculate_volatility download A start_date end_date frequency = Inr (Num a)
              \<and> calculate_volatility download B start_date end_date frequency = Inl err"
  then show "aggregate_volatility download start_date end_date frequency [A, B]
                = \<lparr>volatility_df = [(A, Some (Num a)), (''Average'', Some (Num (round2 a)))],
                   average_volatility = Num (a / 100),
                   console = [(B, err)],
                   requested = [(A, start_date, end_date), (B, start_date, end_date)]\<rparr>"
    by (simp add: aggregate_volatility_report succeeded_def failed_def column_means_def
          nanmean_def dropna_def)
qed (simp_all add: aggregate_volatility_report)


theorem aggregate_volatility_partial_failures_witness:
  "aggregate_volatility
     (\<lambda>t s e. if t = ''MSFT''
        then Inr [(\<lparr>year = 2020, month = 1, day = 2\<rparr>, 50),
                  (\<lparr>year = 2020, month = 1, day = 3\<rparr>, 50),
                  (\<lparr>year = 2020, month = 1, day = 6\<rparr>, 50)]
        else Inl DownloadError)
     \<lparr>year = 2016, month = 1, day = 1\<rparr> \<lparr>year = 2020, month = 1, day = 1\<rparr> ''daily''
     [''MSFT'', ''NONE'']
   = \<lparr>volatility_df = [(''MSFT'', Some (Num 0)), (''Average'', Some (Num 0))],
      average_volatility = Num 0,
      console = [(''NONE'', DownloadError)],
      requested = [(''MSFT'', \<lparr>year = 2016, month = 1, day = 1\<rparr>, \<lparr>year = 2020, month = 1, day = 1\<rparr>),
                   (''NONE'', \<lparr>year = 2016, month = 1, day = 1\<rparr>, \<lparr>year = 2020, month = 1, day = 1\<rparr>)]\<rparr>"
proof -
  let ?dl = "\<lambda>(t::string) (s::date) (e::date). if t = ''MSFT''
        then Inr [(\<lparr>year = 2020, month = 1, day = 2\<rparr>, 50::real),
                  (\<lparr>year = 2020, month = 1, day = 3\<rparr>, 50),
                  (\<lparr>year = 2020, month = 1, day = 6\<rparr>, 50)]
        else Inl DownloadError"
  let ?s = "\<lparr>year = 2016, month = 1, day = 1\<rparr>" and ?e = "\<lparr>year = 2020, month = 1, day = 1\<rparr>"
  have a: "calculate_volatility ?dl ''MSFT'' ?s ?e ''daily'' = Inr (Num 0)"
    using calculate_volatility_constant [of ?dl "''MSFT''" ?s ?e _ 50] by simp
  have b: "calculate_volatility ?dl ''NONE'' ?s ?e ''daily'' = Inl DownloadError"
    by (rule calculate_volatility_raised) simp
  from aggregate_volatility_partial_failures [of ?dl ?s ?e "''daily''" "[''MSFT'', ''NONE'']"] a b
  have "aggregate_volatility ?dl ?s ?e ''daily'' [''MSFT'', ''NONE'']
          = \<lparr>volatility_df = [(''MSFT'', Some (Num 0)), (''Average'', Some (Num (round2 0)))],
             average_volatility = Num (0 / 100),
             console = [(''NONE'', DownloadError)],
             requested = [(''MSFT'', ?s, ?e), (''NONE'', ?s, ?e)]\<rparr>"
    by blast
  then show ?thesis by simp
qed

text \<open>
  The claim as stated fails: the ticker that failed is printed, and the result keeps no
  record of it.  Here \<open>B\<close> has no data; the table holds \<open>A\<close> and the average row.
\<close>

theorem aggregate_volatility_keeps_no_failure:
  "volatility_df (aggregate_volatility
     (\<lambda>t s e. if t = ''A''
        then Inr [(\<lparr>year = 2020, month = 1, day = 2\<rparr>, 100),
                  (\<lparr>year = 2020, month = 1, day = 3\<rparr>, 100),
                  (\<lparr>year = 2020, month = 1, day = 6\<rparr>, 100)]
        else Inr [])
     \<lparr>year = 2016, month = 1, day = 1\<rparr> \<lparr>year = 2020, month = 1, day = 1\<rparr> ''daily''
     [''A'', ''B''])
   = [(''A'', Some (Num 0)), (''Average'', Some (Num 0))]
   \<and> console (aggregate_volatility
     (\<lambda>t s e. if t = ''A''
        then Inr [(\<lparr>year = 2020, month = 1, day = 2\<rparr>, 100),
                  (\<lparr>year = 2020, month = 1, day = 3\<rparr>, 100),
                  (\<lparr>year = 2020, month = 1, day = 6\<rparr>, 100)]
        else Inr [])
     \<lparr>year = 2016, month = 1, day = 1\<rparr> \<lparr>year = 2020, month = 1, day = 1\<rparr> ''daily''
     [''A'', ''B''])
   = [(''B'', ValueError)]"
proof -
  let ?dl = "\<lambda>(t::string) (s::date) (e::date). if t = ''A''
        then Inr [(\<lparr>year = 2020, month = 1, day = 2\<rparr>, 100::real),
                  (\<lparr>year = 2020, month = 1, day = 3\<rparr>, 100),
                  (\<lparr>year = 2020, month = 1, day = 6\<rparr>, 100)]
        else Inr []"
  let ?s = "\<lparr>year = 2016, month = 1, day = 1\<rparr>" and ?e = "\<lparr>year = 2020, month = 1, day = 1\<rparr>"
  have a: "calculate_volatility ?dl ''A'' ?s ?e ''daily'' = Inr (Num 0)"
    using calculate_volatility_constant [of ?dl "''A''" ?s ?e _ 100] by simp
  have b: "calculate_volatility ?dl ''B'' ?s ?e ''daily'' = Inl ValueError"
    by (rule calculate_volatility_empty) simp
  show ?thesis
    by (simp add: aggregate_volatility_report succeeded_def failed_def a b column_means_def
          nanmean_def dropna_def)
qed

section \<open>Properties of the yield table\<close>

lemma known_maturities_eq: "known_maturities = [1, 5, 10, 30]"
  by (simp add: known_maturities_def treasury_tickers_def)

lemma max_maturity_eq: "max_maturity = 30"
  by (simp add: max_maturity_def known_maturities_eq)

lemma upto_1_30:
  "[1 .. 30::int] = [1, 2, 3, 4, 5, 6, 7, 8, 9, 10, 11, 12, 13, 14, 15, 16, 17, 18, 19, 20,
                     21, 22, 23, 24, 25, 26, 27, 28, 29, 30]"
  by code_simp

lemma intermediate_maturities_eq:
  "intermediate_maturities =
     [2, 3, 4, 6, 7, 8, 9, 11, 12, 13, 14, 15, 16, 17, 18, 19, 20,
      21, 22, 23, 24, 25, 26, 27, 28, 29]"
  by (simp add: intermediate_maturities_def max_maturity_eq known_maturities_eq upto_1_30)

lemma all_maturities_eq: "all_maturities = [1 .. 30]"
  unfolding upto_1_30
  by (simp add: all_maturities_def known_maturities_eq intermediate_maturities_eq)

lemma line_through_Num:
  assumes "x0 \<noteq> x1"
  shows "line_through x x0 (Num y0) x1 (Num y1)
           = Num (y0 + (y1 - y0) * (x - x0) / (x1 - x0))"
  using assms by (simp add: line_through_def np_sub_def Let_def)

lemma index_of_found:
  "x \<in> set xs \<Longrightarrow> \<exists>i. index_of xs x = Inr i \<and> i < length xs \<and> xs ! i = x"
proof (induction xs)
  case Nil
  then show ?case by simp
next
  case (Cons y ys)
  show ?case
  proof (cases "y = x")
    case True
    then show ?thesis by simp
  next
    case False
    with Cons obtain i where "index_of ys x = Inr i" "i < length ys" "ys ! i = x"
      by auto
    with False show ?thesis by simp
  qed
qed

lemma index_of_missing: "x \<notin> set xs \<Longrightarrow> index_of xs x = Inl ValueError"
  by (induction xs) auto

lemma collect_all_Inr:
  assumes "\<forall>x \<in> set xs. f x = Inr (h x)"
  shows "collect (map f xs) = Inr (map h xs)"
  using assms by (induction xs) simp_all

lemma collect_fst:
  assumes "collect (map f xs) = Inr ys"
    and "\<forall>x \<in> set xs. \<forall>y. f x = Inr y \<longrightarrow> fst y = x"
  shows "map fst ys = xs"
  using assms
proof (induction xs arbitrary: ys)
  case Nil
  then show ?case by simp
next
  case (Cons x xs)
  show ?case
  proof (cases "f x")
    case (Inl e)
    with Cons.prems(1) show ?thesis by simp
  next
    case (Inr y)
    show ?thesis
    proof (cases "collect (map f xs)")
      case (Inl e)
      with Inr Cons.prems(1) show ?thesis by simp
    next
      case r: (Inr zs)
      with Inr Cons.prems(1) have ys: "ys = y # zs" by simp
      have "map fst zs = xs"
        using r Cons.prems(2) by (intro Cons.IH) simp_all
      moreover have "fst y = x" using Inr Cons.prems(2) by (cases y) simp
      ultimately show ?thesis using ys by simp
    qed
  qed
qed

lemma interp_point_known4:
  assumes "m \<in> set intermediate_maturities"
  shows "interp_point (real_of_int m) [(1, Num a), (5, Num b), (10, Num c), (30, Num d)]
           = Num (spec_bracket_interp [(1, a), (5, b), (10, c), (30, d)] m)"
  using assms unfolding intermediate_maturities_eq
  by (auto simp: interp_point_def line_through_Num spec_bracket_interp_def Let_def)

lemma curve_row_label:
  assumes "curve_row xs ys interpolated m = Inr row"
  shows "fst row = m"
  using assms by (auto simp: curve_row_def split: if_splits sum.splits)

lemma interpolate_yields_labels:
  assumes "interpolate_yields yield_df = Inr table"
  shows "map fst table = all_maturities"
proof -
  define known_yields where "known_yields =
     concat (map (\<lambda>maturity.
                      case map_of yield_df maturity of
                        Some (Some yield_value) \<Rightarrow> [(maturity, yield_value)]
                      | _ \<Rightarrow> [])
                   known_maturities)"
  show ?thesis
  proof (cases "known_yields = []")
    case True
    then have "table = map (\<lambda>maturity. (maturity, None)) all_maturities"
      using assms by (simp add: interpolate_yields_def known_yields_def [symmetric])
    then show ?thesis by (simp add: comp_def)
  next
    case False
    then obtain xs ys interpolated where
      col: "collect (map (curve_row xs ys interpolated) all_maturities) = Inr table"
      using assms
      by (auto simp: interpolate_yields_def known_yields_def [symmetric] Let_def
            split: sum.splits)
    show ?thesis
      by (rule collect_fst [OF col]) (simp add: curve_row_label)
  qed
qed


lemma interp4:
  "np_interp (map real_of_int intermediate_maturities)
                  (map real_of_int [1, 5, 10, 30]) [Num a, Num b, Num c, Num d]
                = Inr (map (\<lambda>m. Num (spec_bracket_interp [(1, a), (5, b), (10, c), (30, d)] m))
                         intermediate_maturities)"
  by (simp add: np_interp_def interp_point_known4)

lemma not_known_is_intermediate:
  assumes "m \<in> set all_maturities" and "m \<notin> set known_maturities"
  shows "m \<in> set intermediate_maturities"
  using assms by (simp add: intermediate_maturities_def all_maturities_def)

lemma curve_row_known:
  assumes "index_of xs m = Inr i"
  shows "curve_row xs ys interpolated m = Inr (m, Some (ys ! i))"
proof -
  have "m \<in> set xs"
    using assms index_of_missing [of m xs] by (cases "m \<in> set xs") simp_all
  then show ?thesis using assms by (simp add: curve_row_def)
qed

lemma curve_row_intermediate:
  assumes "m \<notin> set xs" and "m \<in> set intermediate_maturities"
  shows "curve_row xs ys (map h intermediate_maturities) m = Inr (m, Some (np_round2 (h m)))"
proof -
  from index_of_found [OF assms(2)]
  obtain i where i: "index_of intermediate_maturities m = Inr i"
    and len: "i < length intermediate_maturities" and nth: "intermediate_maturities ! i = m"
    by (elim exE conjE)
  have "map h intermediate_maturities ! i = h m"
    using len nth by (simp only: nth_map)
  then show ?thesis
    using assms(1) i unfolding curve_row_def by (simp only: if_False sum.case)
qed

lemma curve_row_all_present:
  assumes m: "m \<in> set all_maturities"
  shows "curve_row [1, 5, 10, 30] [Num a, Num b, Num c, Num d]
        (map (\<lambda>m. Num (spec_bracket_interp [(1, a), (5, b), (10, c), (30, d)] m))
           intermediate_maturities) m
      = Inr (m, Some (if m = 1 then Num a else if m = 5 then Num b
                      else if m = 10 then Num c else if m = 30 then Num d
                      else Num (round2 (spec_bracket_interp [(1, a), (5, b), (10, c), (30, d)] m))))"
proof -
  consider "m = 1" | "m = 5" | "m = 10" | "m = 30" | "m \<notin> set [1, 5, 10, 30]"
    by auto
  then show ?thesis
  proof cases
    case 1
    have "index_of [1, 5, 10, 30] (1::int) = Inr 0" by simp
    from curve_row_known [OF this] 1 show ?thesis by simp
  next
    case 2
    have "index_of [1, 5, 10, 30] (5::int) = Inr (Suc 0)" by simp
    from curve_row_known [OF this] 2 show ?thesis by simp
  next
    case 3
    have "index_of [1, 5, 10, 30] (10::int) = Inr (Suc (Suc 0))" by simp
    from curve_row_known [OF this] 3 show ?thesis by simp
  next
    case 4
    have "index_of [1, 5, 10, 30] (30::int) = Inr (Suc (Suc (Suc 0)))" by simp
    from curve_row_known [OF this] 4 show ?thesis by simp
  next
    case 5
    then have "m \<in> set intermediate_maturities"
      using m by (intro not_known_is_intermediate) (simp_all add: known_maturities_eq)
    from curve_row_intermediate [OF 5 this] 5 show ?thesis
      by simp
  qed
qed


lemma interpolate_yields_all_present:
  "interpolate_yields (DataFrame [(1, Some (Num a)), (5, Some (Num b)), (10, Some (Num c)),
                                  (30, Some (Num d))])
     = Inr (map (\<lambda>m. (m, Some (if m = 1 then Num a else if m = 5 then Num b
                                 else if m = 10 then Num c else if m = 30 then Num d
                                 else Num (round2 (spec_bracket_interp
                                        [(1, a), (5, b), (10, c), (30, d)] m)))))
              all_maturities)"
proof -
  have df: "DataFrame [(1, Some (Num a)), (5, Some (Num b)), (10, Some (Num c)),
                       (30, Some (Num d))]
              = [(1, Some (Num a)), (5, Some (Num b)), (10, Some (Num c)), (30, Some (Num d))]"
    by (simp add: DataFrame_def)
  have known: "concat (map (\<lambda>maturity.
                      case map_of [(1, Some (Num a)), (5, Some (Num b)), (10, Some (Num c)),
                                   (30, Some (Num d))] maturity of
                        Some (Some yield_value) \<Rightarrow> [(maturity, yield_value)]
                      | _ \<Rightarrow> [])
                   known_maturities)
                = [(1, Num a), (5, Num b), (10, Num c), (30, Num d)]"
    by (simp add: known_maturities_eq)
  have srt: "sort_key fst [(1::int, Num a), (5, Num b), (10, Num c), (30, Num d)]
               = [(1, Num a), (5, Num b), (10, Num c), (30, Num d)]"
    by simp
  have xs: "map fst [(1::int, Num a), (5, Num b), (10, Num c), (30, Num d)] = [1, 5, 10, 30]"
    and ys: "map snd [(1::int, Num a), (5, Num b), (10, Num c), (30, Num d)]
               = [Num a, Num b, Num c, Num d]"
    by simp_all
  have ne: "[(1::int, Num a), (5, Num b), (10, Num c), (30, Num d)] \<noteq> []"
    by simp
  have col: "collect (map (curve_row [1, 5, 10, 30] [Num a, Num b, Num c, Num d]
                (map (\<lambda>m. Num (spec_bracket_interp [(1, a), (5, b), (10, c), (30, d)] m))
                   intermediate_maturities)) all_maturities)
     = Inr (map (\<lambda>m. (m, Some (if m = 1 then Num a else if m = 5 then Num b
                                 else if m = 10 then Num c else if m = 30 then Num d
                                 else Num (round2 (spec_bracket_interp
                                        [(1, a), (5, b), (10, c), (30, d)] m)))))
              all_maturities)"
    by (rule collect_all_Inr) (simp add: curve_row_all_present)
  show ?thesis
    unfolding df interpolate_yields_def known Let_def srt xs ys interp4
    using ne col by (simp only: if_True sum.case not_False_eq_True)
qed

lemma lookup_rate_labels:
  assumes "map fst table = all_maturities"
  shows "lookup_rate table m =
           (if m < 1 \<or> 30 < m then Inl (KeyError [1 .. 30])
            else case map_of table m of Some (Some y) \<Rightarrow> Inr (np_div y (Num 100))
                 | _ \<Rightarrow> Inl TypeError)"
  using assms by (auto simp: lookup_rate_def all_maturities_eq)

lemma fetch_yields_all_failed:
  assumes "\<forall>symbol. \<exists>e. fetch_treasury_yield symbol vd = Inl e"
  shows "DataFrame (fetch_yields fetch_treasury_yield vd)
           = [(1, None), (5, None), (10, None), (30, None)]"
proof -
  have "\<And>symbol. (case fetch_treasury_yield symbol vd of
                      Inr latest_yield \<Rightarrow> Some latest_yield | Inl e \<Rightarrow> None) = None"
    using assms by (metis sum.simps(5))
  then show ?thesis
    by (simp add: fetch_yields_def treasury_tickers_def DataFrame_def)
qed

lemma interpolate_yields_none:
  "interpolate_yields [(1, None), (5, None), (10, None), (30, None)]
     = Inr (map (\<lambda>m. (m, None)) all_maturities)"
  by (simp add: interpolate_yields_def known_maturities_eq)

lemma map_of_const_None:
  "m \<in> set xs \<Longrightarrow> map_of (map (\<lambda>m. (m, None)) xs) m = Some None"
  by (induction xs) auto

text \<open>
  Claim C7, evaluated where it fails.  The 5-year yield cannot be fetched and the other
  three can: \<open>pd.DataFrame\<close> turns the missing yield into NaN, the test
  \<open>yield_value is not None\<close> lets it through, and the table is NaN at the maturities 2 to 9
  next to values at all the others.
\<close>

theorem yield_table_partially_populated:
  "interpolate_yields (DataFrame (fetch_yields
      (\<lambda>symbol d. if symbol = ''^FVX'' then Inl ValueError
                      else if symbol = ''^IRX'' then Inr (Num 1)
                      else if symbol = ''^TNX'' then Inr (Num 3) else Inr (Num 4))
      \<lparr>year = 2020, month = 1, day = 2\<rparr>))
     = Inr
       [(1, Some (Num 1)), (2, Some (NaN)), (3, Some (NaN)),
        (4, Some (NaN)), (5, Some (NaN)), (6, Some (NaN)),
        (7, Some (NaN)), (8, Some (NaN)), (9, Some (NaN)),
        (10, Some (Num 3)), (11, Some (Num (61 / 20))), (12, Some (Num (31 / 10))),
        (13, Some (Num (63 / 20))), (14, Some (Num (16 / 5))), (15, Some (Num (13 / 4))),
        (16, Some (Num (33 / 10))), (17, Some (Num (67 / 20))), (18, Some (Num (17 / 5))),
        (19, Some (Num (69 / 20))), (20, Some (Num (7 / 2))), (21, Some (Num (71 / 20))),
        (22, Some (Num (18 / 5))), (23, Some (Num (73 / 20))), (24, Some (Num (37 / 10))),
        (25, Some (Num (15 / 4))), (26, Some (Num (19 / 5))), (27, Some (Num (77 / 20))),
        (28, Some (Num (39 / 10))), (29, Some (Num (79 / 20))), (30, Some (Num 4))]"
  by code_simp

text \<open>
  Had the missing yield stayed \<open>None\<close> in the table, the loop over \<open>all_maturities\<close> would
  have looked the 5-year maturity up in \<open>intermediate_maturities\<close>, where it is not, and
  \<open>list.index\<close> would have raised.
\<close>

lemma interpolate_yields_without_coercion:
  "interpolate_yields [(1, Some (Num 1)), (5, None), (10, Some (Num 3)), (30, Some (Num 4))]
     = Inl ValueError"
  by code_simp

text \<open>
  Claim C2, evaluated where it fails, on the same input.  The known points are the
  maturities 1, 10 and 30; the line through the points that bracket the maturity 7 gives
  2.33, and the table holds NaN there.
\<close>

theorem yield_table_not_interpolated:
  "(case interpolate_yields (DataFrame (fetch_yields
      (\<lambda>symbol d. if symbol = ''^FVX'' then Inl ValueError
                      else if symbol = ''^IRX'' then Inr (Num 1)
                      else if symbol = ''^TNX'' then Inr (Num 3) else Inr (Num 4))
      \<lparr>year = 2020, month = 1, day = 2\<rparr>)) of
      Inl e \<Rightarrow> None
    | Inr table \<Rightarrow> map_of table 7) = Some (Some NaN)
   \<and> round2 (spec_bracket_interp [(1, 1), (10, 3), (30, 4)] 7) = 233 / 100"
  by code_simp

text \<open>
  Claim C8, as the code has it.  On the table built from any four fetches, the lookup
  raises the \<open>KeyError\<close>, with the labels 1 to 30 in its message, exactly when the
  required maturity is below 1 or above 30, whether or not a yield is known; so a
  maturity of 40 raises it.  When no yield at all could be fetched, a maturity from 1 to
  30 passes the guard, finds \<open>None\<close>, and the division by 100 raises \<open>TypeError\<close>.
\<close>

theorem lookup_rate_key_error:
  assumes "interpolate_yields (DataFrame (fetch_yields fetch_treasury_yield vd)) = Inr table"
  shows "((\<exists>labels. lookup_rate table m = Inl (KeyError labels)) \<longleftrightarrow> m < 1 \<or> 30 < m)
       \<and> (m < 1 \<or> 30 < m \<longrightarrow> lookup_rate table m = Inl (KeyError [1 .. 30]))
       \<and> lookup_rate table 40 = Inl (KeyError [1 .. 30])
       \<and> ((\<forall>symbol. \<exists>e. fetch_treasury_yield symbol vd = Inl e) \<and> 1 \<le> m \<and> m \<le> 30
            \<longrightarrow> lookup_rate table m = Inl TypeError)"
proof -
  have labels: "map fst table = all_maturities"
    using assms by (rule interpolate_yields_labels)
  note lk = lookup_rate_labels [OF labels]
  have 1: "(\<exists>labels. lookup_rate table m = Inl (KeyError labels)) \<longleftrightarrow> m < 1 \<or> 30 < m"
    unfolding lk by (auto split: option.splits)
  have 2: "m < 1 \<or> 30 < m \<longrightarrow> lookup_rate table m = Inl (KeyError [1 .. 30])"
    unfolding lk by simp
  have 3: "lookup_rate table 40 = Inl (KeyError [1 .. 30])"
    unfolding lk by simp
  have 4: "lookup_rate table m = Inl TypeError"
    if none: "\<forall>symbol. \<exists>e. fetch_treasury_yield symbol vd = Inl e" and m: "1 \<le> m" "m \<le> 30"
  proof -
    have "table = map (\<lambda>m. (m, None)) all_maturities"
      using assms
      unfolding fetch_yields_all_failed [of fetch_treasury_yield vd, OF none]
        interpolate_yields_none
      by simp
    moreover have "m \<in> set all_maturities"
      using m by (simp add: all_maturities_eq)
    ultimately have "map_of table m = Some None"
      by (simp add: map_of_const_None)
    then show ?thesis unfolding lk using m by simp
  qed
  from 1 2 3 4 show ?thesis by blast
qed

theorem lookup_rate_key_error_witness:
  "interpolate_yields (DataFrame (fetch_yields
      (\<lambda>symbol d. if symbol = ''^IRX'' then Inr (Num 1) else if symbol = ''^FVX'' then Inr (Num 2)
                   else if symbol = ''^TNX'' then Inr (Num 3) else Inr (Num 4))
      \<lparr>year = 2020, month = 1, day = 2\<rparr>))
     = Inr (map (\<lambda>m. (m, Some (if m = 1 then Num 1 else if m = 5 then Num 2
                                 else if m = 10 then Num 3 else if m = 30 then Num 4
                                 else Num (round2 (spec_bracket_interp
                                        [(1, 1), (5, 2), (10, 3), (30, 4)] m)))))
              all_maturities)
   \<and> lookup_rate
       (map (\<lambda>m. (m, Some (if m = 1 then Num 1 else if m = 5 then Num 2
                                 else if m = 10 then Num 3 else if m = 30 then Num 4
                                 else Num (round2 (spec_bracket_interp
                                        [(1, 1), (5, 2), (10, 3), (30, 4)] m)))))
              all_maturities) 40
     = Inl (KeyError [1 .. 30])"
proof -
  let ?fy = "\<lambda>(symbol::string) (d::date).
               if symbol = ''^IRX'' then Inr (Num 1) else if symbol = ''^FVX'' then Inr (Num 2)
               else if symbol = ''^TNX'' then Inr (Num 3) else (Inr (Num 4) :: error + float64)"
  have f: "fetch_yields ?fy \<lparr>year = 2020, month = 1, day = 2\<rparr>
             = [(1, Some (Num 1)), (5, Some (Num 2)), (10, Some (Num 3)), (30, Some (Num 4))]"
    by (simp add: fetch_yields_def treasury_tickers_def)
  have t: "interpolate_yields (DataFrame (fetch_yields ?fy \<lparr>year = 2020, month = 1, day = 2\<rparr>))
     = Inr (map (\<lambda>m. (m, Some (if m = 1 then Num 1 else if m = 5 then Num 2
                                 else if m = 10 then Num 3 else if m = 30 then Num 4
                                 else Num (round2 (spec_bracket_interp
                                        [(1, 1), (5, 2), (10, 3), (30, 4)] m)))))
              all_maturities)"
    unfolding f by (rule interpolate_yields_all_present)
  from lookup_rate_key_error [OF t, of 40] t show ?thesis by simp
qed

text \<open>
  The claim as stated fails when no yield is known: the maturity 4 is a label of the
  table, no \<open>KeyError\<close> is raised, and the failure is the \<open>TypeError\<close> of \<open>None / 100\<close>,
  which lists no maturities.
\<close>

theorem lookup_rate_without_known_points:
  "(case interpolate_yields (DataFrame (fetch_yields (\<lambda>symbol d. Inl ValueError)
            \<lparr>year = 2020, month = 1, day = 2\<rparr>)) of
      Inl e \<Rightarrow> Inl e
    | Inr table \<Rightarrow> lookup_rate table 4) = Inl TypeError"
  by code_simp

section \<open>Properties of \<open>main\<close>\<close>

lemma calculate_years_to_maturity_parses:
  assumes "calculate_years_to_maturity (y, m, d) x w = Inr n"
  shows "valid_date y m d"
proof (rule ccontr)
  assume "\<not> valid_date y m d"
  then have "strptime (y, m, d) = Inl ValueError"
    by (rule strptime_invalid)
  with assms show False by (simp add: calculate_years_to_maturity_def)
qed

lemma main_window_ok:
  assumes ytm: "calculate_years_to_maturity (valuation_date cfg) (expiration_date cfg)
                  (vesting_end_date cfg) = Inr n"
    and v: "valuation_date cfg = (y, m, d)"
    and ok: "valid_date (y - n) m d"
  shows "price_requests (main cfg download fetch_treasury_yield) =
           requested (aggregate_volatility download \<lparr>year = y - n, month = m, day = d\<rparr>
                        \<lparr>year = y, month = m, day = d\<rparr> (frequency cfg) (public_comps cfg))"
    and "printed (main cfg download fetch_treasury_yield) =
           console (aggregate_volatility download \<lparr>year = y - n, month = m, day = d\<rparr>
                        \<lparr>year = y, month = m, day = d\<rparr> (frequency cfg) (public_comps cfg))"
    and "outcome (main cfg download fetch_treasury_yield) =
           (case interpolate_yields (DataFrame
                   (fetch_yields fetch_treasury_yield \<lparr>year = y, month = m, day = d\<rparr>)) of
              Inl e \<Rightarrow> Inl e
            | Inr table \<Rightarrow>
               (case lookup_rate table n of
                  Inl e \<Rightarrow> Inl e
                | Inr rate \<Rightarrow>
                   (case black_scholes (stock_price cfg) (strike_price cfg) (real_of_int n) rate
                           (average_volatility
                              (aggregate_volatility download
                                 \<lparr>year = y - n, month = m, day = d\<rparr>
                                 \<lparr>year = y, month = m, day = d\<rparr>
                                 (frequency cfg) (public_comps cfg))) of
                      Inl e \<Rightarrow> Inl e
                    | Inr price \<Rightarrow>
                        Inr \<lparr>years_to_maturity = n,
                             risk_free_rate = rate,
                             volatility = average_volatility
                               (aggregate_volatility download
                                  \<lparr>year = y - n, month = m, day = d\<rparr>
                                  \<lparr>year = y, month = m, day = d\<rparr>
                                  (frequency cfg) (public_comps cfg)),
                             option_valuation = price,
                             volatility_table = volatility_df
                               (aggregate_volatility download
                                  \<lparr>year = y - n, month = m, day = d\<rparr>
                                  \<lparr>year = y, month = m, day = d\<rparr>
                                  (frequency cfg) (public_comps cfg)),
                             interpolated_df = table\<rparr>)))"
proof -
  have vd: "strptime (valuation_date cfg) = Inr \<lparr>year = y, month = m, day = d\<rparr>"
    using calculate_years_to_maturity_parses ytm v by (simp add: strptime_valid)
  have st: "replace_year \<lparr>year = y, month = m, day = d\<rparr> (y - n)
              = Inr \<lparr>year = y - n, month = m, day = d\<rparr>"
    using ok by (simp add: replace_year_def mk_date_def)
  show "price_requests (main cfg download fetch_treasury_yield) =
           requested (aggregate_volatility download \<lparr>year = y - n, month = m, day = d\<rparr>
                        \<lparr>year = y, month = m, day = d\<rparr> (frequency cfg) (public_comps cfg))"
    by (simp add: main_def ytm vd st Let_def)
  show "printed (main cfg download fetch_treasury_yield) =
           console (aggregate_volatility download \<lparr>year = y - n, month = m, day = d\<rparr>
                        \<lparr>year = y, month = m, day = d\<rparr> (frequency cfg) (public_comps cfg))"
    by (simp add: main_def ytm vd st Let_def)
  show "outcome (main cfg download fetch_treasury_yield) =
           (case interpolate_yields (DataFrame
                   (fetch_yields fetch_treasury_yield \<lparr>year = y, month = m, day = d\<rparr>)) of
              Inl e \<Rightarrow> Inl e
            | Inr table \<Rightarrow>
               (case lookup_rate table n of
                  Inl e \<Rightarrow> Inl e
                | Inr rate \<Rightarrow>
                   (case black_scholes (stock_price cfg) (strike_price cfg) (real_of_int n) rate
                           (average_volatility
                              (aggregate_volatility download
                                 \<lparr>year = y - n, month = m, day = d\<rparr>
                                 \<lparr>year = y, month = m, day = d\<rparr>
                                 (frequency cfg) (public_comps cfg))) of
                      Inl e \<Rightarrow> Inl e
                    | Inr price \<Rightarrow>
                        Inr \<lparr>years_to_maturity = n,
                             risk_free_rate = rate,
                             volatility = average_volatility
                               (aggregate_volatility download
                                  \<lparr>year = y - n, month = m, day = d\<rparr>
                                  \<lparr>year = y, month = m, day = d\<rparr>
                                  (frequency cfg) (public_comps cfg)),
                             option_valuation = price,
                             volatility_table = volatility_df
                               (aggregate_volatility download
                                  \<lparr>year = y - n, month = m, day = d\<rparr>
                                  \<lparr>year = y, month = m, day = d\<rparr>
                                  (frequency cfg) (public_comps cfg)),
                             interpolated_df = table\<rparr>)))"
    by (simp add: main_def ytm vd st Let_def)
qed





lemma succeeded_none:
  fixes frequency :: string
  assumes "\<forall>t \<in> set tickers.
             \<exists>err. calculate_volatility download t start_date end_date frequency = Inl err"
  shows "succeeded download start_date end_date frequency tickers = []"
  using assms by (induction tickers) (auto simp: succeeded_def)

lemma black_scholes_NaN_volatility:
  assumes "K \<noteq> 0"
  shows "black_scholes S K T r NaN = Inr NaN"
  using assms by (simp add: black_scholes_def np_sub_def Let_def)

lemma main_without_volatility:
  assumes ytm: "calculate_years_to_maturity (valuation_date cfg) (expiration_date cfg)
                  (vesting_end_date cfg) = Inr n"
    and v: "valuation_date cfg = (y, m, d)"
    and ok: "valid_date (y - n) m d"
    and fail: "\<forall>t \<in> set (public_comps cfg).
                 \<exists>err. calculate_volatility download t \<lparr>year = y - n, month = m, day = d\<rparr>
                         \<lparr>year = y, month = m, day = d\<rparr> (frequency cfg) = Inl err"
    and strike: "strike_price cfg \<noteq> 0"
  shows "outcome (main cfg download fetch_treasury_yield) =
           (case interpolate_yields (DataFrame
                   (fetch_yields fetch_treasury_yield \<lparr>year = y, month = m, day = d\<rparr>)) of
              Inl e \<Rightarrow> Inl e
            | Inr table \<Rightarrow>
               (case lookup_rate table n of
                  Inl e \<Rightarrow> Inl e
                | Inr rate \<Rightarrow>
                    Inr \<lparr>years_to_maturity = n,
                         risk_free_rate = rate,
                         volatility = NaN,
                         option_valuation = NaN,
                         volatility_table = [(''Average'', None)],
                         interpolated_df = table\<rparr>))"
proof -
  have none: "succeeded download \<lparr>year = y - n, month = m, day = d\<rparr>
                \<lparr>year = y, month = m, day = d\<rparr> (frequency cfg) (public_comps cfg) = []"
    using fail by (rule succeeded_none)
  have avg: "average_volatility
               (aggregate_volatility download \<lparr>year = y - n, month = m, day = d\<rparr>
                  \<lparr>year = y, month = m, day = d\<rparr> (frequency cfg) (public_comps cfg)) = NaN"
    by (simp add: aggregate_volatility_report none nanmean_def dropna_def)
  have tab: "volatility_df
               (aggregate_volatility download \<lparr>year = y - n, month = m, day = d\<rparr>
                  \<lparr>year = y, month = m, day = d\<rparr> (frequency cfg) (public_comps cfg))
             = [(''Average'', None)]"
    by (simp add: aggregate_volatility_report none column_means_def)
  show ?thesis
    unfolding main_window_ok(3) [OF ytm v ok] avg tab
    by (simp add: black_scholes_NaN_volatility [OF strike] split: sum.splits)
qed

lemma map_of_graph: "m \<in> set xs \<Longrightarrow> map_of (map (\<lambda>k. (k, g k)) xs) m = Some (g m)"
  by (induction xs) auto

lemma lookup_rate_present:
  assumes "1 \<le> m" and "m \<le> 30"
  shows "lookup_rate (map (\<lambda>k. (k, Some (f k))) all_maturities) m
           = Inr (np_div (f m) (Num 100))"
proof -
  have "m \<in> set all_maturities"
    using assms by (simp add: all_maturities_eq)
  then show ?thesis
    by (simp add: lookup_rate_def comp_def map_of_graph)
qed

lemma fetch_yields_four:
  "fetch_yields (\<lambda>symbol dt. if symbol = ''^IRX'' then Inr (Num a)
                     else if symbol = ''^FVX'' then Inr (Num b)
                     else if symbol = ''^TNX'' then Inr (Num c) else Inr (Num d)) vd
     = [(1, Some (Num a)), (5, Some (Num b)), (10, Some (Num c)), (30, Some (Num d))]"
  by (simp add: fetch_yields_def treasury_tickers_def)

lemma rate_at_4: "round2 (spec_bracket_interp [(1, 1), (5, 2), (10, 3), (30, 4)] 4) = 7 / 4"
  by code_simp

text \<open>
  Claim C5, as the code has it.  When the volatility of every ticker fails, nothing is
  raised for it: the average volatility is NaN, \<open>main\<close> goes on to the yields and to the
  pricer, and with a strike other than zero it ends as the yield table and the lookup
  end; when they succeed, the valuation holds NaN as volatility and NaN as option value.
\<close>

theorem main_all_tickers_fail:
  assumes "calculate_years_to_maturity (valuation_date cfg) (expiration_date cfg)
             (vesting_end_date cfg) = Inr n"
    and "valuation_date cfg = (y, m, d)"
    and "valid_date (y - n) m d"
    and "\<forall>t \<in> set (public_comps cfg).
           \<exists>err. calculate_volatility download t \<lparr>year = y - n, month = m, day = d\<rparr>
                   \<lparr>year = y, month = m, day = d\<rparr> (frequency cfg) = Inl err"
    and "strike_price cfg \<noteq> 0"
  shows "average_volatility
           (aggregate_volatility download \<lparr>year = y - n, month = m, day = d\<rparr>
              \<lparr>year = y, month = m, day = d\<rparr> (frequency cfg) (public_comps cfg)) = NaN
       \<and> outcome (main cfg download fetch_treasury_yield) =
           (case interpolate_yields (DataFrame
                   (fetch_yields fetch_treasury_yield \<lparr>year = y, month = m, day = d\<rparr>)) of
              Inl e \<Rightarrow> Inl e
            | Inr table \<Rightarrow>
               (case lookup_rate table n of
                  Inl e \<Rightarrow> Inl e
                | Inr rate \<Rightarrow>
                    Inr \<lparr>years_to_maturity = n,
                         risk_free_rate = rate,
                         volatility = NaN,
                         option_valuation = NaN,
                         volatility_table = [(''Average'', None)],
                         interpolated_df = table\<rparr>))"
proof
  have "succeeded download \<lparr>year = y - n, month = m, day = d\<rparr>
                \<lparr>year = y, month = m, day = d\<rparr> (frequency cfg) (public_comps cfg) = []"
    using assms(4) by (rule succeeded_none)
  then show "average_volatility
           (aggregate_volatility download \<lparr>year = y - n, month = m, day = d\<rparr>
              \<lparr>year = y, month = m, day = d\<rparr> (frequency cfg) (public_comps cfg)) = NaN"
    by (simp add: aggregate_volatility_report nanmean_def dropna_def)
next
  show "outcome (main cfg download fetch_treasury_yield) =
           (case interpolate_yields (DataFrame
                   (fetch_yields fetch_treasury_yield \<lparr>year = y, month = m, day = d\<rparr>)) of
              Inl e \<Rightarrow> Inl e
            | Inr table \<Rightarrow>
               (case lookup_rate table n of
                  Inl e \<Rightarrow> Inl e
                | Inr rate \<Rightarrow>
                    Inr \<lparr>years_to_maturity = n,
                         risk_free_rate = rate,
                         volatility = NaN,
                         option_valuation = NaN,
                         volatility_table = [(''Average'', None)],
                         interpolated_df = table\<rparr>))"
    using assms by (rule main_without_volatility)
qed

theorem main_all_tickers_fail_witness:
  "outcome
     (main \<lparr>stock_price = 50, strike_price = 45, valuation_date = (2020, 1, 1),
            expiration_date = (2025, 1, 1), vesting_end_date = (2023, 1, 1),
            public_comps = [''AAPL'', ''MSFT''], frequency = ''daily''\<rparr>
        (\<lambda>t s e. Inl DownloadError)
        (\<lambda>symbol d. if symbol = ''^IRX'' then Inr (Num 1)
                     else if symbol = ''^FVX'' then Inr (Num 2)
                     else if symbol = ''^TNX'' then Inr (Num 3) else Inr (Num 4)))
   = Inr \<lparr>years_to_maturity = 4,
          risk_free_rate = Num (7 / 400),
          volatility = NaN,
          option_valuation = NaN,
          volatility_table = [(''Average'', None)],
          interpolated_df =
            map (\<lambda>m. (m, Some (if m = 1 then Num 1 else if m = 5 then Num 2
                                 else if m = 10 then Num 3 else if m = 30 then Num 4
                                 else Num (round2 (spec_bracket_interp
                                        [(1, 1), (5, 2), (10, 3), (30, 4)] m)))))
              all_maturities\<rparr>"
proof -
  let ?cfg = "\<lparr>stock_price = 50, strike_price = 45, valuation_date = (2020, 1, 1),
            expiration_date = (2025, 1, 1), vesting_end_date = (2023, 1, 1),
            public_comps = [''AAPL'', ''MSFT''], frequency = ''daily''\<rparr>"
  let ?dl = "\<lambda>(t::string) (s::date) (e::date). Inl DownloadError :: error + price_series"
  let ?fy = "\<lambda>(symbol::string) (d::date). if symbol = ''^IRX'' then Inr (Num 1)
                     else if symbol = ''^FVX'' then Inr (Num 2)
                     else if symbol = ''^TNX'' then Inr (Num 3)
                     else (Inr (Num 4) :: error + float64)"
  have n: "calculate_years_to_maturity (valuation_date ?cfg) (expiration_date ?cfg)
              (vesting_end_date ?cfg) = Inr 4"
    by code_simp
  have v: "valuation_date ?cfg = (2020, 1, 1)"
    by simp
  have ok: "valid_date (2020 - 4) 1 1"
    by code_simp
  have fail: "\<forall>t \<in> set (public_comps ?cfg).
           \<exists>err. calculate_volatility ?dl t \<lparr>year = 2020 - 4, month = 1, day = 1\<rparr>
                   \<lparr>year = 2020, month = 1, day = 1\<rparr> (frequency ?cfg) = Inl err"
    by (simp add: calculate_volatility_def)
  have strike: "strike_price ?cfg \<noteq> 0"
    by simp
  have rate: "lookup_rate
       (map (\<lambda>m. (m, Some (if m = 1 then Num 1 else if m = 5 then Num 2
                                 else if m = 10 then Num 3 else if m = 30 then Num 4
                                 else Num (round2 (spec_bracket_interp
                                        [(1, 1), (5, 2), (10, 3), (30, 4)] m)))))
              all_maturities) 4 = Inr (Num (7 / 400))"
    by (simp add: lookup_rate_present rate_at_4)
  from main_all_tickers_fail [OF n v ok fail strike, of ?fy]
  show ?thesis
    unfolding fetch_yields_four interpolate_yields_all_present
    by (simp add: rate)
qed

text \<open>
  The claim as stated fails: with no data for any ticker, \<open>main\<close> raises nothing and
  returns a valuation whose volatility and option value are NaN.
\<close>

theorem main_continues_with_nan:
  "(case outcome
      (main \<lparr>stock_price = 50, strike_price = 45, valuation_date = (2020, 1, 1),
             expiration_date = (2025, 1, 1), vesting_end_date = (2023, 1, 1),
             public_comps = [''A'', ''B''], frequency = ''weekly''\<rparr>
         (\<lambda>t s e. Inr [])
         (\<lambda>symbol dt. if symbol = ''^IRX'' then Inr (Num (3 / 2))
                      else if symbol = ''^FVX'' then Inr (Num 2)
                      else if symbol = ''^TNX'' then Inr (Num (5 / 2)) else Inr (Num 3))) of
      Inl e \<Rightarrow> None
    | Inr v \<Rightarrow> Some (years_to_maturity v, volatility v, option_valuation v))
   = Some (4, NaN, NaN)"
proof -
  let ?cfg = "\<lparr>stock_price = 50, strike_price = 45, valuation_date = (2020, 1, 1),
             expiration_date = (2025, 1, 1), vesting_end_date = (2023, 1, 1),
             public_comps = [''A'', ''B''], frequency = ''weekly''\<rparr>"
  let ?dl = "\<lambda>(t::string) (s::date) (e::date). Inr [] :: error + price_series"
  have n: "calculate_years_to_maturity (valuation_date ?cfg) (expiration_date ?cfg)
              (vesting_end_date ?cfg) = Inr 4"
    by code_simp
  have v: "valuation_date ?cfg = (2020, 1, 1)"
    by simp
  have ok: "valid_date (2020 - 4) 1 1"
    by code_simp
  have fail: "\<forall>t \<in> set (public_comps ?cfg).
           \<exists>err. calculate_volatility ?dl t \<lparr>year = 2020 - 4, month = 1, day = 1\<rparr>
                   \<lparr>year = 2020, month = 1, day = 1\<rparr> (frequency ?cfg) = Inl err"
    by (simp add: calculate_volatility_def)
  have strike: "strike_price ?cfg \<noteq> 0"
    by simp
  show ?thesis
    unfolding main_without_volatility [OF n v ok fail strike] fetch_yields_four
      interpolate_yields_all_present
    by (simp add: lookup_rate_present)
qed

end
